theory Spec2Isabelle
  imports Complex_Main
begin

section \<open>Errors\<close>

text \<open>
  The exceptions that the modelled code can raise.  A computation that can raise returns
  a value of \<open>py_error + 'a\<close>, with \<open>Inl\<close> the exception.
\<close>

datatype py_error = ValueError | TypeError | IndexError | AssertionError | NameError

definition try_bind :: "py_error + 'a \<Rightarrow> ('a \<Rightarrow> py_error + 'b) \<Rightarrow> py_error + 'b" where
  "try_bind m f = (case m of Inl e \<Rightarrow> Inl e | Inr x \<Rightarrow> f x)"

section \<open>Arrays\<close>

text \<open>
  An array of the numeric back-end is a shape and a row-major buffer, as \<open>numpy.ndarray\<close>
  is.  Floating-point entries are modelled by real numbers: rounding, infinities and NaN are
  outside the model.
\<close>

record 'a ndarray =
  shape :: "nat list"
  data :: "'a list"

definition ndim :: "'a ndarray \<Rightarrow> nat" where
  "ndim A = length (shape A)"

definition wf :: "'a ndarray \<Rightarrow> bool" where
  "wf A \<longleftrightarrow> length (data A) = prod_list (shape A)"

text \<open>All index tuples of a shape, in row-major order, and the offset of one index tuple.\<close>

fun indices :: "nat list \<Rightarrow> nat list list" where
  "indices [] = [[]]"
| "indices (n # ns) = concat (map (\<lambda>i. map ((#) i) (indices ns)) [0..<n])"

fun flat_index :: "nat list \<Rightarrow> nat list \<Rightarrow> nat" where
  "flat_index (n # ns) (i # is) = i * prod_list ns + flat_index ns is"
| "flat_index _ _ = 0"

definition in_range :: "nat list \<Rightarrow> nat list \<Rightarrow> bool" where
  "in_range sh ix = list_all2 (<) ix sh"

text \<open>\<open>get A [i, j, k]\<close> is \<open>A[i, j, k]\<close>; \<open>tabulate sh g\<close> is the array of shape \<open>sh\<close>
  whose entry at \<open>ix\<close> is \<open>g ix\<close>.\<close>

definition get :: "'a ndarray \<Rightarrow> nat list \<Rightarrow> 'a" where
  "get A ix = data A ! flat_index (shape A) ix"

definition tabulate :: "nat list \<Rightarrow> (nat list \<Rightarrow> 'a) \<Rightarrow> 'a ndarray" where
  "tabulate sh g = \<lparr>shape = sh, data = map g (indices sh)\<rparr>"

definition zeros :: "nat list \<Rightarrow> real ndarray" where
  "zeros sh = tabulate sh (\<lambda>ix. 0)"

text \<open>\<open>place n pos vals\<close> is the index tuple of length \<open>n\<close> that has \<open>vals ! k\<close> at
  position \<open>pos ! k\<close>.\<close>

definition place :: "nat \<Rightarrow> nat list \<Rightarrow> nat list \<Rightarrow> nat list" where
  "place n pos vals = fold (\<lambda>(p, v) ix. ix[p := v]) (zip pos vals) (replicate n 0)"

definition free_axes :: "nat \<Rightarrow> nat list \<Rightarrow> nat list" where
  "free_axes n axes = filter (\<lambda>k. k \<notin> set axes) [0..<n]"

text \<open>
  \<open>numpy.tensordot(A, B, axes=[axes_a, axes_b])\<close>: the axes \<open>axes_a\<close> of \<open>A\<close> are summed
  against the axes \<open>axes_b\<close> of \<open>B\<close>; the result has the remaining axes of \<open>A\<close>, then the
  remaining axes of \<open>B\<close>, each in their order.
\<close>

definition tensordot ::
  "real ndarray \<Rightarrow> real ndarray \<Rightarrow> nat list \<Rightarrow> nat list \<Rightarrow> py_error + real ndarray" where
  "tensordot A B axes_a axes_b =
     (if length axes_a \<noteq> length axes_b then Inl ValueError
      else if (\<exists>k\<in>set axes_a. ndim A \<le> k) \<or> (\<exists>k\<in>set axes_b. ndim B \<le> k) then Inl IndexError
      else if map ((!) (shape A)) axes_a \<noteq> map ((!) (shape B)) axes_b then Inl ValueError
      else
        let fa = free_axes (ndim A) axes_a;
            fb = free_axes (ndim B) axes_b;
            sk = map ((!) (shape A)) axes_a
        in Inr (tabulate (map ((!) (shape A)) fa @ map ((!) (shape B)) fb)
                 (\<lambda>ix. \<Sum>kx\<leftarrow>indices sk.
                     get A (place (ndim A) (fa @ axes_a) (take (length fa) ix @ kx)) *
                     get B (place (ndim B) (fb @ axes_b) (drop (length fa) ix @ kx)))))"

text \<open>\<open>A.transpose(perm)\<close>: axis \<open>k\<close> of the result is axis \<open>perm ! k\<close> of \<open>A\<close>.\<close>

definition transpose_nd :: "'a ndarray \<Rightarrow> nat list \<Rightarrow> py_error + 'a ndarray" where
  "transpose_nd A perm =
     (if sort perm \<noteq> [0..<ndim A] then Inl ValueError
      else Inr (tabulate (map ((!) (shape A)) perm) (\<lambda>ix. get A (place (ndim A) perm ix))))"

text \<open>\<open>A.sum(axis=0)\<close>.\<close>

definition sum_axis0 :: "real ndarray \<Rightarrow> py_error + real ndarray" where
  "sum_axis0 A =
     (case shape A of
        [] \<Rightarrow> Inl ValueError
      | n # ns \<Rightarrow> Inr (tabulate ns (\<lambda>ix. \<Sum>k\<leftarrow>[0..<n]. get A (k # ix))))"

text \<open>
  \<open>A += B\<close>: \<open>B\<close> is broadcast to the shape of \<open>A\<close> (its shape is aligned with the last
  axes of \<open>A\<close>, and an axis of length 1 is repeated); a shape that does not broadcast raises.
\<close>

definition broadcastable :: "nat list \<Rightarrow> nat list \<Rightarrow> bool" where
  "broadcastable sa sb \<longleftrightarrow>
     length sb \<le> length sa \<and>
     list_all2 (\<lambda>a b. b = a \<or> b = 1) (drop (length sa - length sb) sa) sb"

definition bcast_index :: "nat list \<Rightarrow> nat list \<Rightarrow> nat list" where
  "bcast_index sb ix = map2 (\<lambda>d i. if d = 1 then 0 else i) sb (drop (length ix - length sb) ix)"

definition iadd :: "real ndarray \<Rightarrow> real ndarray \<Rightarrow> py_error + real ndarray" where
  "iadd A B =
     (if broadcastable (shape A) (shape B)
      then Inr (tabulate (shape A) (\<lambda>ix. get A ix + get B (bcast_index (shape B) ix)))
      else Inl ValueError)"

text \<open>
  \<open>X[ids]\<close> for an integer array \<open>ids\<close>: the rows of \<open>X\<close> selected by the entries of
  \<open>ids\<close>; a negative entry counts from the end, an entry out of range raises.
\<close>

definition py_index :: "nat \<Rightarrow> int \<Rightarrow> nat" where
  "py_index n v = nat (if v < 0 then v + int n else v)"

definition take_rows :: "'a ndarray \<Rightarrow> int ndarray \<Rightarrow> py_error + 'a ndarray" where
  "take_rows X ids =
     (case shape X of
        [] \<Rightarrow> Inl IndexError
      | n # ns \<Rightarrow>
          if \<exists>v\<in>set (data ids). v < - int n \<or> int n \<le> v then Inl IndexError
          else Inr (tabulate (shape ids @ ns)
                 (\<lambda>ix. get X (py_index n (get ids (take (ndim ids) ix)) # drop (ndim ids) ix))))"

text \<open>The entries of \<open>ids\<close> are row numbers of an array with \<open>n\<close> rows.\<close>

definition valid_ids :: "nat \<Rightarrow> int ndarray \<Rightarrow> bool" where
  "valid_ids n ids \<longleftrightarrow> (\<forall>v\<in>set (data ids). - int n \<le> v \<and> v < int n)"

text \<open>\<open>(W**2).sum()\<close>.\<close>

definition sum_squares :: "real ndarray \<Rightarrow> real" where
  "sum_squares A = (\<Sum>x\<leftarrow>data A. x\<^sup>2)"

section \<open>The tensor-contraction layers\<close>

text \<open>
  The attributes that \<open>describe.attributes\<close> gives \<open>PrecomputableAffine\<close>: the dimensions,
  the weights \<open>W\<close> and bias \<open>b\<close>, their gradients \<open>d_W\<close> and \<open>d_b\<close>, and the identity
  \<open>self.id\<close> of the layer.  \<open>PrecomputableMaxouts\<close> has the number of pieces \<open>nP\<close> besides.
\<close>

record precomputable =
  nO :: nat
  nI :: nat
  nF :: nat
  W :: "real ndarray"
  b :: "real ndarray"
  d_W :: "real ndarray"
  d_b :: "real ndarray"
  layer_id :: nat

record precomputable_maxouts = precomputable +
  nP :: nat

text \<open>
  Modelled from the spec: the memory pool \<open>self._mem\<close> of a layer (thinc's \<open>Model\<close> and
  \<open>Memory\<close> are not part of the source).  Its weight buffer holds the parameter buffers \<open>W\<close>
  and \<open>b\<close>, its gradient buffer holds \<open>d_W\<close> and \<open>d_b\<close>, which are views of it.
\<close>

type_synonym mem_buffer = "real ndarray \<times> real ndarray"

definition mem_weights :: "'a precomputable_scheme \<Rightarrow> mem_buffer" where
  "mem_weights L = (W L, b L)"

definition mem_gradient :: "'a precomputable_scheme \<Rightarrow> mem_buffer" where
  "mem_gradient L = (d_W L, d_b L)"

text \<open>
  The shapes that the attribute declarations give the buffers once the dimensions are
  resolved.
\<close>

definition affine_resolved :: "precomputable \<Rightarrow> bool" where
  "affine_resolved L \<longleftrightarrow>
     shape (W L) = [nF L, nO L, nI L] \<and> shape (b L) = [nO L] \<and>
     shape (d_W L) = [nF L, nO L, nI L] \<and> shape (d_b L) = [nO L] \<and>
     wf (W L) \<and> wf (b L) \<and> wf (d_W L) \<and> wf (d_b L)"

definition maxouts_resolved :: "precomputable_maxouts \<Rightarrow> bool" where
  "maxouts_resolved L \<longleftrightarrow>
     shape (W L) = [nF L, nO L, nP L, nI L] \<and> shape (b L) = [nO L, nP L] \<and>
     shape (d_W L) = [nF L, nO L, nP L, nI L] \<and> shape (d_b L) = [nO L, nP L] \<and>
     wf (W L) \<and> wf (b L) \<and> wf (d_W L) \<and> wf (d_b L)"

text \<open>
  The optimizer callback \<open>sgd(weights, gradient, key=...)\<close> updates both buffers in place:
  it is a function from the buffers and the key to the updated buffers.  The calls made
  are recorded with their arguments.
\<close>

type_synonym optimizer = "mem_buffer \<Rightarrow> mem_buffer \<Rightarrow> nat \<Rightarrow> mem_buffer \<times> mem_buffer"

type_synonym sgd_call = "mem_buffer \<times> mem_buffer \<times> nat"

definition call_sgd ::
  "optimizer option \<Rightarrow> 'a precomputable_scheme \<Rightarrow> 'a precomputable_scheme \<times> sgd_call list" where
  "call_sgd sgd L =
     (case sgd of
        None \<Rightarrow> (L, [])
      | Some opt \<Rightarrow>
          (case opt (mem_weights L) (mem_gradient L) (layer_id L) of
             ((W', b'), (d_W', d_b')) \<Rightarrow>
               (L\<lparr>W := W', b := b', d_W := d_W', d_b := d_b'\<rparr>,
                [(mem_weights L, mem_gradient L, layer_id L)])))"

subsection \<open>PrecomputableAffine\<close>

definition PrecomputableAffine_forward :: "precomputable \<Rightarrow> real ndarray \<Rightarrow> py_error + real ndarray" where
  "PrecomputableAffine_forward L X =
     try_bind (tensordot X (W L) [1] [2]) (\<lambda>Yf. iadd Yf (b L))"

text \<open>The gradient computation of \<open>backward\<close>, up to the optimizer call.\<close>

definition PrecomputableAffine_gradients ::
  "real ndarray \<Rightarrow> real ndarray \<times> int ndarray \<Rightarrow> precomputable
     \<Rightarrow> py_error + (real ndarray \<times> precomputable)" where
  "PrecomputableAffine_gradients X dY_ids L =
     (case dY_ids of (dY, ids) \<Rightarrow>
        try_bind (take_rows X ids) (\<lambda>Xf.
        try_bind (tensordot dY (W L) [1] [1]) (\<lambda>dXf.
        try_bind (tensordot dY Xf [0] [0]) (\<lambda>dW.
        try_bind (transpose_nd dW [1, 0, 2]) (\<lambda>dWt.
        try_bind (iadd (d_W L) dWt) (\<lambda>d_W'.
        try_bind (sum_axis0 dY) (\<lambda>db.
        try_bind (iadd (d_b (L\<lparr>d_W := d_W'\<rparr>)) db) (\<lambda>d_b'.
        Inr (dXf, L\<lparr>d_W := d_W', d_b := d_b'\<rparr>)))))))))"

text \<open>
  The closure \<open>backward\<close> returned by \<open>begin_update\<close>: it holds the forward input \<open>X\<close>,
  and reads and updates the layer as it is when the closure is called.  It returns the
  input gradient, the updated layer and the optimizer calls it made.
\<close>

definition PrecomputableAffine_backward ::
  "real ndarray \<Rightarrow> real ndarray \<times> int ndarray \<Rightarrow> optimizer option \<Rightarrow> precomputable
     \<Rightarrow> py_error + (real ndarray \<times> precomputable \<times> sgd_call list)" where
  "PrecomputableAffine_backward X dY_ids sgd L =
     try_bind (PrecomputableAffine_gradients X dY_ids L) (\<lambda>(dXf, L').
       case call_sgd sgd L' of (L'', calls) \<Rightarrow> Inr (dXf, L'', calls))"

definition PrecomputableAffine_begin_update ::
  "precomputable \<Rightarrow> real ndarray
     \<Rightarrow> py_error + (real ndarray \<times>
          (real ndarray \<times> int ndarray \<Rightarrow> optimizer option \<Rightarrow> precomputable
             \<Rightarrow> py_error + (real ndarray \<times> precomputable \<times> sgd_call list)))" where
  "PrecomputableAffine_begin_update L X =
     try_bind (PrecomputableAffine_forward L X) (\<lambda>Yf.
       Inr (Yf, PrecomputableAffine_backward X))"

subsection \<open>PrecomputableMaxouts\<close>

definition PrecomputableMaxouts_forward ::
  "precomputable_maxouts \<Rightarrow> real ndarray \<Rightarrow> py_error + real ndarray" where
  "PrecomputableMaxouts_forward L X =
     try_bind (tensordot X (W L) [1] [3]) (\<lambda>Yfp. iadd Yfp (b L))"

definition PrecomputableMaxouts_gradients ::
  "real ndarray \<Rightarrow> real ndarray \<times> int ndarray \<Rightarrow> precomputable_maxouts
     \<Rightarrow> py_error + (real ndarray \<times> precomputable_maxouts)" where
  "PrecomputableMaxouts_gradients X dYp_ids L =
     (case dYp_ids of (dYp, ids) \<Rightarrow>
        try_bind (take_rows X ids) (\<lambda>Xf.
        try_bind (tensordot dYp (W L) [1, 2] [1, 2]) (\<lambda>dXf.
        try_bind (tensordot dYp Xf [0] [0]) (\<lambda>dW.
        try_bind (transpose_nd dW [2, 0, 1, 3]) (\<lambda>dWt.
        try_bind (iadd (d_W L) dWt) (\<lambda>d_W'.
        try_bind (sum_axis0 dYp) (\<lambda>db.
        try_bind (iadd (d_b (L\<lparr>d_W := d_W'\<rparr>)) db) (\<lambda>d_b'.
        Inr (dXf, L\<lparr>d_W := d_W', d_b := d_b'\<rparr>)))))))))"

definition PrecomputableMaxouts_backward ::
  "real ndarray \<Rightarrow> real ndarray \<times> int ndarray \<Rightarrow> optimizer option \<Rightarrow> precomputable_maxouts
     \<Rightarrow> py_error + (real ndarray \<times> precomputable_maxouts \<times> sgd_call list)" where
  "PrecomputableMaxouts_backward X dYp_ids sgd L =
     try_bind (PrecomputableMaxouts_gradients X dYp_ids L) (\<lambda>(dXf, L').
       case call_sgd sgd L' of (L'', calls) \<Rightarrow> Inr (dXf, L'', calls))"

definition PrecomputableMaxouts_begin_update ::
  "precomputable_maxouts \<Rightarrow> real ndarray
     \<Rightarrow> py_error + (real ndarray \<times>
          (real ndarray \<times> int ndarray \<Rightarrow> optimizer option \<Rightarrow> precomputable_maxouts
             \<Rightarrow> py_error + (real ndarray \<times> precomputable_maxouts \<times> sgd_call list)))" where
  "PrecomputableMaxouts_begin_update L X =
     try_bind (PrecomputableMaxouts_forward L X) (\<lambda>Yfp.
       Inr (Yfp, PrecomputableMaxouts_backward X))"

subsection \<open>Weight initialization\<close>

text \<open>\<open>A.reshape(sh)\<close>: the same buffer under another shape of the same size.\<close>

definition reshape :: "'a ndarray \<Rightarrow> nat list \<Rightarrow> py_error + 'a ndarray" where
  "reshape A sh =
     (if prod_list sh = length (data A) then Inr \<lparr>shape = sh, data = data A\<rparr> else Inl ValueError)"

text \<open>
  The numeric back-end \<open>ops\<close> that the initializers are called with.  Its
  \<open>xavier_uniform_init\<close> works in place: the function gives the array after the call.
\<close>

record ops =
  xavier_uniform_init :: "real ndarray \<Rightarrow> real ndarray"

text \<open>\<open>_init_for_precomputed\<close>; the result is the buffer \<open>W\<close> after the call.\<close>

definition init_for_precomputed :: "real ndarray \<Rightarrow> ops \<Rightarrow> py_error + real ndarray" where
  "init_for_precomputed V ops =
     (if sum_squares V \<noteq> 0 then Inr V
      else if ndim V < 3 then Inl IndexError
      else
        try_bind (reshape V [shape V ! 1, shape V ! 0 * shape V ! 2]) (\<lambda>reshaped.
        try_bind (reshape (xavier_uniform_init ops reshaped) (shape V)) (\<lambda>V'.
        Inr V')))"

text \<open>The initializers that the declarations of \<open>W\<close> give the two layers.\<close>

definition PrecomputableAffine_init_W :: "real ndarray \<Rightarrow> ops \<Rightarrow> py_error + real ndarray" where
  "PrecomputableAffine_init_W V ops = init_for_precomputed V ops"

definition PrecomputableMaxouts_init_W :: "real ndarray \<Rightarrow> ops \<Rightarrow> py_error + real ndarray" where
  "PrecomputableMaxouts_init_W V ops = Inr (xavier_uniform_init ops V)"

text \<open>
  Modelled from the spec: the initializer \<open>ops.xavier_uniform_init\<close> of the back-end
  (thinc's \<open>Ops\<close>, not part of the source).  The spec: the weight buffer is initialized by
  a variance-scaling scheme when its sum of squares is exactly zero, and the check is an
  idempotent no-op, which never raises, on a buffer that is already non-zero.  The random
  draw is the parameter \<open>fill\<close>, from the shape to the new contents.
\<close>

definition spec_ops :: "(nat list \<Rightarrow> real list) \<Rightarrow> ops" where
  "spec_ops fill =
     \<lparr>xavier_uniform_init =
        (\<lambda>A. if sum_squares A \<noteq> 0 then A else A\<lparr>data := fill (shape A)\<rparr>)\<rparr>"

subsection \<open>get_col\<close>

text \<open>\<open>A[:, c]\<close>, and \<open>A\<close> with \<open>A[:, c]\<close> replaced by \<open>v\<close>.\<close>

definition col_view :: "'a ndarray \<Rightarrow> nat \<Rightarrow> py_error + 'a ndarray" where
  "col_view A c =
     (if ndim A < 2 \<or> shape A ! 1 \<le> c then Inl IndexError
      else Inr (tabulate (hd (shape A) # drop 2 (shape A)) (\<lambda>ix. get A (hd ix # c # tl ix))))"

definition set_col :: "'a ndarray \<Rightarrow> nat \<Rightarrow> 'a ndarray \<Rightarrow> 'a ndarray" where
  "set_col A c v = tabulate (shape A) (\<lambda>ix. if ix ! 1 = c then get v (hd ix # drop 2 ix) else get A ix)"

text \<open>\<open>ops.allocate(shape)\<close> of thinc's back-ends gives an array of zeros.\<close>

definition ops_allocate :: "nat list \<Rightarrow> real ndarray" where
  "ops_allocate sh = zeros sh"

definition get_col_backward :: "int \<Rightarrow> 'a ndarray \<Rightarrow> real ndarray \<Rightarrow> py_error + real ndarray" where
  "get_col_backward idx X y =
     (if \<not> idx \<ge> 0 then Inl AssertionError
      else
        let dX = ops_allocate (shape X) in
        try_bind (col_view dX (nat idx)) (\<lambda>col.
        try_bind (iadd col y) (\<lambda>col'.
        Inr (set_col dX (nat idx) col'))))"

definition get_col_forward ::
  "int \<Rightarrow> 'a ndarray \<Rightarrow> py_error + ('a ndarray \<times> (real ndarray \<Rightarrow> py_error + real ndarray))" where
  "get_col_forward idx X =
     (if \<not> idx \<ge> 0 then Inl AssertionError
      else try_bind (col_view X (nat idx)) (\<lambda>output. Inr (output, get_col_backward idx X)))"

definition get_col ::
  "int \<Rightarrow> py_error + ('a ndarray \<Rightarrow> py_error + ('a ndarray \<times> (real ndarray \<Rightarrow> py_error + real ndarray)))" where
  "get_col idx = (if \<not> idx \<ge> 0 then Inl AssertionError else Inr (get_col_forward idx))"

section \<open>Batches of sequences\<close>

text \<open>
  A batch is a list of sequences; a sequence, and an array seen along its first axis, is
  the list of its rows.

  Modelled from the spec: \<open>ops.flatten\<close> and \<open>ops.unflatten\<close> of the back-end (thinc's
  \<open>Ops\<close>, not part of the source).  The spec describes the padding in two ways: the
  flatten component inserts \<open>pad\<close> all-zero rows at the start and at the end of the whole
  buffer and not between the sequences (\<open>Edge_padding\<close>), and the data model speaks of
  padding rows at each sequence boundary (\<open>Boundary_padding\<close>: before every sequence and
  after the last).  Both are modelled.  Unflattening splits the buffer by the lengths and
  leaves the same padding rows out.
\<close>

datatype pad_layout = Edge_padding | Boundary_padding

definition pad_rows :: "nat \<Rightarrow> 'a::zero list" where
  "pad_rows pad = replicate pad 0"

fun ops_flatten :: "pad_layout \<Rightarrow> 'a::zero list list \<Rightarrow> nat \<Rightarrow> 'a list" where
  "ops_flatten Edge_padding seqs pad = pad_rows pad @ concat seqs @ pad_rows pad"
| "ops_flatten Boundary_padding seqs pad = concat (map (\<lambda>seq. pad_rows pad @ seq) seqs) @ pad_rows pad"

fun split_rows :: "nat \<Rightarrow> 'a list \<Rightarrow> nat list \<Rightarrow> 'a list list" where
  "split_rows skip X [] = []"
| "split_rows skip X (n # ns) = take n (drop skip X) # split_rows skip (drop n (drop skip X)) ns"

fun ops_unflatten :: "pad_layout \<Rightarrow> 'a list \<Rightarrow> nat list \<Rightarrow> nat \<Rightarrow> 'a list list" where
  "ops_unflatten Edge_padding X lengths pad = split_rows 0 (drop pad X) lengths"
| "ops_unflatten Boundary_padding X lengths pad = split_rows pad X lengths"

text \<open>
  Modelled from the spec: \<open>ops.flatten\<close> on gradient chunks of which some may be absent
  (\<open>None\<close>).  Concatenation then fails; \<open>numpy.concatenate\<close> raises \<open>ValueError\<close> on an
  entry that is not an array.
\<close>

definition ops_flatten_opt :: "pad_layout \<Rightarrow> 'a::zero list option list \<Rightarrow> py_error + 'a list" where
  "ops_flatten_opt lay parts =
     (case those parts of
        None \<Rightarrow> Inl ValueError
      | Some present \<Rightarrow> Inr (ops_flatten lay present 0))"

text \<open>\<open>_flatten_add_lengths\<close> and \<open>flatten\<close>: the flat buffer (with the lengths), and the
  closure \<open>finish_update\<close> that unflattens a gradient by the lengths it captured.\<close>

definition flatten_add_lengths ::
  "pad_layout \<Rightarrow> 'a::zero list list \<Rightarrow> nat \<Rightarrow> ('a list \<times> nat list) \<times> ('b list \<Rightarrow> 'b list list)" where
  "flatten_add_lengths lay seqs pad =
     (let lengths = map length seqs;
          finish_update = (\<lambda>d_X. ops_unflatten lay d_X lengths pad);
          X = ops_flatten lay seqs pad
      in ((X, lengths), finish_update))"

definition flatten ::
  "pad_layout \<Rightarrow> 'a::zero list list \<Rightarrow> 'a list \<times> ('b list \<Rightarrow> 'b list list)" where
  "flatten lay seqs =
     (let lengths = map length seqs;
          finish_update = (\<lambda>d_X. ops_unflatten lay d_X lengths 0);
          X = ops_flatten lay seqs 0
      in (X, finish_update))"

section \<open>rebatch\<close>

text \<open>\<open>xs[i:j]\<close>: a negative bound counts from the end, and bounds are clipped.\<close>

definition py_slice :: "'a list \<Rightarrow> int \<Rightarrow> int \<Rightarrow> 'a list" where
  "py_slice xs i j =
     (let n = int (length xs);
          lo = (if i < 0 then max 0 (i + n) else min i n);
          hi = (if j < 0 then max 0 (j + n) else min j n)
      in take (nat (hi - lo)) (drop (nat lo) xs))"

text \<open>
  The loop of \<open>_divide_array\<close>.  It does not end when \<open>size\<close> is not positive and \<open>X\<close> is
  not empty: not returning is the value \<open>None\<close>.
\<close>

partial_function (option) divide_loop :: "'a list \<Rightarrow> int \<Rightarrow> int \<Rightarrow> 'a list list \<Rightarrow> 'a list list option" where
  "divide_loop X size' index parts =
     (if index < int (length X)
      then divide_loop X size' (index + size') (parts @ [py_slice X index (index + size')])
      else Some parts)"

declare divide_loop.simps [code]

definition divide_array :: "'a list \<Rightarrow> int \<Rightarrow> 'a list list option" where
  "divide_array X size' = divide_loop X size' 0 []"

text \<open>
  The wrapped layer: \<open>begin_update\<close> maps a batch and the dropout rate to the output and
  the backward closure; the closure maps an output gradient and the optimizer to an input
  gradient, or to \<open>None\<close> when the layer has none.  The layer is taken as a function of its
  arguments.
\<close>

type_synonym ('g, 's, 'd) backprop = "'g list \<Rightarrow> 's \<Rightarrow> 'd list option"

type_synonym ('x, 'y, 'g, 's, 'd) layer = "'x list \<Rightarrow> real \<Rightarrow> 'y list \<times> ('g, 's, 'd) backprop"

text \<open>
  The closure \<open>backward\<close> of \<open>rebatch\<close>.  The outer \<open>option\<close> is \<open>None\<close> when
  \<open>_divide_array\<close> does not return; the inner one is the gradient, \<open>None\<close> when the
  \<open>try\<close> block caught a \<open>TypeError\<close> or a \<open>ValueError\<close> of \<open>ops.flatten\<close>.
\<close>

definition rebatch_backward ::
  "pad_layout \<Rightarrow> int \<Rightarrow> ('g, 's, 'd::zero) backprop list \<Rightarrow> 'g list \<Rightarrow> 's
     \<Rightarrow> (py_error + 'd list option) option" where
  "rebatch_backward lay size' bp_results dy sgd =
     (case divide_array dy size' of
        None \<Rightarrow> None
      | Some dys \<Rightarrow>
          let d_parts = map (\<lambda>(bp, y). bp y sgd) (zip bp_results dys)
          in Some (case ops_flatten_opt lay d_parts of
                     Inr dX \<Rightarrow> Inr (Some dX)
                   | Inl e \<Rightarrow> if e = TypeError \<or> e = ValueError then Inr None else Inl e))"

text \<open>
  The \<open>forward\<close> of \<open>rebatch\<close>.  A batch shorter than \<open>size\<close> goes to
  \<open>layer.begin_update(X)\<close>, which gets the default dropout rate 0.  Unpacking
  \<open>zip(*[])\<close> into two names raises \<open>ValueError\<close>.  \<open>ops.flatten\<close> is called without
  padding, where both descriptions of the padding give the concatenation.
\<close>

definition rebatch_forward ::
  "pad_layout \<Rightarrow> int \<Rightarrow> ('x, 'y::zero, 'g, 's, 'd::zero) layer \<Rightarrow> 'x list \<Rightarrow> real
     \<Rightarrow> (py_error + ('y list \<times> ('g list \<Rightarrow> 's \<Rightarrow> (py_error + 'd list option) option))) option" where
  "rebatch_forward lay size' layer X drop' =
     (if int (length X) < size'
      then (case layer X 0 of (y, bp) \<Rightarrow> Some (Inr (y, \<lambda>dy sgd. Some (Inr (bp dy sgd)))))
      else
        case divide_array X size' of
          None \<Rightarrow> None
        | Some parts \<Rightarrow>
            if parts = [] then Some (Inl ValueError)
            else
              let rs = map (\<lambda>p. layer p drop') parts;
                  results = map fst rs;
                  bp_results = map snd rs;
                  y = ops_flatten lay results 0
              in Some (Inr (y, rebatch_backward lay size' bp_results)))"

text \<open>
  The partition that the spec describes, for comparison with \<open>_divide_array\<close>: contiguous
  chunks of \<open>k\<close> items, the last one possibly shorter.
\<close>

function chunks :: "nat \<Rightarrow> 'a list \<Rightarrow> 'a list list" where
  "chunks k xs = (if k = 0 \<or> xs = [] then [] else take k xs # chunks k (drop k xs))"
  by pat_completeness auto
termination
  by (relation "measure (\<lambda>(k, xs). length xs)") auto

declare chunks.simps [simp del]

section \<open>reapply\<close>

text \<open>
  \<open>reapply_bwd\<close> adds into the gradient array in place (\<open>dX += dY\<close>), and \<open>dX\<close> is the
  array that the first replayed closure returned.  Gradient arrays are therefore references
  into a store: an address is a position of the store, and a new array is put at its end.
  A backward closure of the layer maps a reference (or \<open>None\<close>), the optimizer and the store
  to the reference it returns and the store it leaves.
\<close>

type_synonym addr = nat

type_synonym heap = "real ndarray list"

type_synonym 's grad_fn = "addr option \<Rightarrow> 's \<Rightarrow> heap \<Rightarrow> addr option \<times> heap"

text \<open>The loop of \<open>reapply_fwd\<close>; \<open>Y\<close> is unbound (\<open>None\<close>) before the first pass.\<close>

fun reapply_loop ::
  "('x \<Rightarrow> real \<Rightarrow> 'x \<times> 'b) \<Rightarrow> nat \<Rightarrow> 'x \<Rightarrow> real \<Rightarrow> 'x option \<Rightarrow> 'b list \<Rightarrow> 'x option \<times> 'b list" where
  "reapply_loop layer 0 X drop' Y backprops = (Y, backprops)"
| "reapply_loop layer (Suc n) X drop' Y backprops =
     (case layer X drop' of
        (Y', backprop) \<Rightarrow> reapply_loop layer n Y' drop' (Some Y') (backprops @ [backprop]))"

text \<open>\<open>dX += dY\<close> for the array at \<open>a\<close>; adding \<open>None\<close> raises \<open>TypeError\<close>.\<close>

definition heap_iadd :: "addr \<Rightarrow> addr option \<Rightarrow> heap \<Rightarrow> py_error + heap" where
  "heap_iadd a dY h =
     (case dY of
        None \<Rightarrow> Inl TypeError
      | Some c \<Rightarrow>
          if a < length h \<and> c < length h
          then try_bind (iadd (h ! a) (h ! c)) (\<lambda>R. Inr (h[a := R]))
          else Inl TypeError)"

text \<open>The loop of \<open>reapply_bwd\<close> over \<open>reversed(backprops)\<close>.\<close>

fun reapply_bwd_loop ::
  "'s grad_fn list \<Rightarrow> addr option \<Rightarrow> 's \<Rightarrow> addr option \<Rightarrow> heap \<Rightarrow> py_error + (addr option \<times> heap)" where
  "reapply_bwd_loop [] dY sgd dX h = Inr (dX, h)"
| "reapply_bwd_loop (backprop # rest) dY sgd dX h =
     (case backprop dY sgd h of
        (dY', h') \<Rightarrow>
          (case dX of
             None \<Rightarrow> reapply_bwd_loop rest dY' sgd dY' h'
           | Some a \<Rightarrow>
               try_bind (heap_iadd a dY' h') (\<lambda>h''. reapply_bwd_loop rest dY' sgd dX h'')))"

definition reapply_bwd ::
  "'s grad_fn list \<Rightarrow> addr option \<Rightarrow> 's \<Rightarrow> heap \<Rightarrow> py_error + (addr option \<times> heap)" where
  "reapply_bwd backprops dY sgd h = reapply_bwd_loop (rev backprops) dY sgd None h"

text \<open>\<open>reapply_fwd\<close>; with no pass of the loop, \<open>return Y\<close> reads an unbound name.\<close>

definition reapply_fwd ::
  "('x \<Rightarrow> real \<Rightarrow> 'x \<times> 's grad_fn) \<Rightarrow> int \<Rightarrow> 'x \<Rightarrow> real
     \<Rightarrow> py_error + ('x \<times> (addr option \<Rightarrow> 's \<Rightarrow> heap \<Rightarrow> py_error + (addr option \<times> heap)))" where
  "reapply_fwd layer n_times X drop' =
     (case reapply_loop layer (nat n_times) X drop' None [] of
        (None, backprops) \<Rightarrow> Inl NameError
      | (Some Y, backprops) \<Rightarrow> Inr (Y, reapply_bwd backprops))"




section \<open>Example inputs\<close>

text \<open>Small inputs on which the theorems below are instantiated.\<close>

definition affine_example :: precomputable where
  "affine_example =
     \<lparr>nO = 2, nI = 2, nF = 1,
      W = \<lparr>shape = [1, 2, 2], data = [1, 2, 3, 4]\<rparr>, b = \<lparr>shape = [2], data = [10, 20]\<rparr>,
      d_W = \<lparr>shape = [1, 2, 2], data = [0, 0, 0, 0]\<rparr>, d_b = \<lparr>shape = [2], data = [0, 0]\<rparr>,
      layer_id = 7\<rparr>"

definition X_example :: "real ndarray" where
  "X_example = \<lparr>shape = [1, 2], data = [1, 1]\<rparr>"

definition X2_example :: "real ndarray" where
  "X2_example = \<lparr>shape = [2, 2], data = [1, 1, 2, 3]\<rparr>"

definition dY_example :: "real ndarray" where
  "dY_example = \<lparr>shape = [2, 2], data = [1, 2, 3, 4]\<rparr>"

definition ids_example :: "int ndarray" where
  "ids_example = \<lparr>shape = [2, 1], data = [1, - 2]\<rparr>"

definition maxouts_example :: precomputable_maxouts where
  "maxouts_example =
     \<lparr>nO = 1, nI = 2, nF = 1,
      W = \<lparr>shape = [1, 1, 2, 2], data = [1, 2, 3, 4]\<rparr>, b = \<lparr>shape = [1, 2], data = [10, 20]\<rparr>,
      d_W = \<lparr>shape = [1, 1, 2, 2], data = [0, 0, 0, 0]\<rparr>, d_b = \<lparr>shape = [1, 2], data = [0, 0]\<rparr>,
      layer_id = 8, nP = 2\<rparr>"

definition dYp_example :: "real ndarray" where
  "dYp_example = \<lparr>shape = [2, 1, 2], data = [1, 2, 3, 4]\<rparr>"

text \<open>An optimizer that leaves the weights and zeroes the gradient buffer.\<close>

definition zero_grad_optimizer :: optimizer where
  "zero_grad_optimizer w g k = (w, (zeros (shape (fst g)), zeros (shape (snd g))))"

text \<open>An optimizer that sets every weight to one and zeroes the gradient buffer.\<close>

definition ones_optimizer :: optimizer where
  "ones_optimizer w g k =
     ((fst w\<lparr>data := map (\<lambda>x. 1) (data (fst w))\<rparr>, snd w\<lparr>data := map (\<lambda>x. 1) (data (snd w))\<rparr>),
      (zeros (shape (fst g)), zeros (shape (snd g))))"

definition W_example :: "real ndarray" where
  "W_example = \<lparr>shape = [1, 2, 2], data = [0, 3, 0, 0]\<rparr>"

definition ones_ops :: ops where
  "ones_ops = \<lparr>xavier_uniform_init = (\<lambda>A. A\<lparr>data := map (\<lambda>x. 1) (data A)\<rparr>)\<rparr>"

definition Xcol_example :: "real ndarray" where
  "Xcol_example = \<lparr>shape = [2, 3], data = [1, 2, 3, 4, 5, 6]\<rparr>"

definition g_example :: "real ndarray" where
  "g_example = \<lparr>shape = [2], data = [7, 8]\<rparr>"

text \<open>A layer that doubles every item, and one that has no input gradient.\<close>

definition double_layer :: "(int, int, int, unit, int) layer" where
  "double_layer X d = (map (\<lambda>x. 2 * x) X, \<lambda>dy sgd. Some (map (\<lambda>g. 2 * g) dy))"






section \<open>Properties of the arrays\<close>

lemma length_indices: "length (indices sh) = prod_list sh"
proof (induction sh)
  case Nil
  show ?case by simp
next
  case (Cons n ns)
  have "length (concat (map (\<lambda>i. map ((#) i) (indices ns)) [0..<n])) = n * length (indices ns)"
    by (induction n) simp_all
  with Cons show ?case by simp
qed

lemma concat_map_upt_nth:
  assumes "\<And>i. i < n \<Longrightarrow> length (f i) = m" and "i < n" and "j < m"
  shows "concat (map f [0..<n]) ! (i * m + j) = f i ! j"
  using assms
proof (induction n)
  case 0
  then show ?case by simp
next
  case (Suc n)
  have len: "length (concat (map f [0..<n])) = n * m"
    using Suc.prems(1) by (induction n) simp_all
  show ?case
  proof (cases "i < n")
    case True
    have "i * m + j < i * m + m" using Suc.prems(3) by simp
    also have "\<dots> = Suc i * m" by simp
    also have "\<dots> \<le> n * m" using True by (intro mult_le_mono1) simp
    finally have "i * m + j < n * m" .
    with True Suc show ?thesis by (simp add: nth_append len)
  next
    case False
    with Suc.prems have "i = n" by simp
    with Suc.prems show ?thesis by (simp add: nth_append len)
  qed
qed

lemma flat_index_less: "list_all2 (<) ix sh \<Longrightarrow> flat_index sh ix < prod_list sh"
proof (induction ix sh rule: list_all2_induct)
  case Nil
  show ?case by simp
next
  case (Cons i ix n ns)
  have "i * prod_list ns + flat_index ns ix < i * prod_list ns + prod_list ns"
    using Cons by simp
  also have "\<dots> = Suc i * prod_list ns" by simp
  also have "\<dots> \<le> n * prod_list ns" using Cons.hyps(1) by (intro mult_le_mono1) simp
  finally show ?case by simp
qed

lemma indices_nth: "list_all2 (<) ix sh \<Longrightarrow> indices sh ! flat_index sh ix = ix"
proof (induction ix sh rule: list_all2_induct)
  case Nil
  show ?case by simp
next
  case (Cons i ix n ns)
  have "concat (map (\<lambda>k. map ((#) k) (indices ns)) [0..<n]) ! (i * prod_list ns + flat_index ns ix)
        = map ((#) i) (indices ns) ! flat_index ns ix"
    using Cons.hyps(1) flat_index_less[OF Cons.hyps(2)]
    by (intro concat_map_upt_nth) (simp_all add: length_indices)
  then show ?case using Cons flat_index_less[OF Cons.hyps(2)] by (simp add: length_indices)
qed

lemma get_tabulate: "in_range sh ix \<Longrightarrow> get (tabulate sh g) ix = g ix"
  unfolding in_range_def get_def tabulate_def
  by (simp add: indices_nth flat_index_less length_indices)

lemma shape_tabulate: "shape (tabulate sh g) = sh"
  by (simp add: tabulate_def)

lemma wf_tabulate: "wf (tabulate sh g)"
  by (simp add: wf_def tabulate_def length_indices)

lemma get_in_data: "wf A \<Longrightarrow> in_range (shape A) ix \<Longrightarrow> get A ix \<in> set (data A)"
  by (simp add: wf_def in_range_def get_def flat_index_less)

lemma sum_list_upt_sum: "(\<Sum>i\<leftarrow>[0..<n]. f i) = (\<Sum>i<n. f i)"
  by (simp add: interv_sum_list_conv_sum_set_nat atLeast0LessThan)

lemma indices_single: "indices [n] = map (\<lambda>i. [i]) [0..<n]"
  by (induction n) simp_all

lemma sum_list_indices_single: "(\<Sum>kx\<leftarrow>indices [n]. f kx) = (\<Sum>i<n. f [i])"
  by (simp add: indices_single comp_def sum_list_upt_sum)

lemmas nd_simps = ndim_def free_axes_def place_def Let_def eval_nat_numeral get_tabulate
  in_range_def shape_tabulate wf_tabulate sum_list_indices_single try_bind_def
  comp_def sum_list_upt_sum

text \<open>The three contractions of \<open>PrecomputableAffine\<close>, as the comments of the source give
  them in \<open>einsum\<close> notation: \<open>bi,foi->bfo\<close>, \<open>bo,foi->bfi\<close> and \<open>bo,bfi->ofi\<close>.\<close>

lemma tensordot_bi_foi:
  assumes "shape X = [nb, ni]" and "shape V = [nf, no, ni]"
  shows "\<exists>Y. tensordot X V [1] [2] = Inr Y \<and> shape Y = [nb, nf, no] \<and> wf Y \<and>
           (\<forall>bi<nb. \<forall>fi<nf. \<forall>oi<no.
              get Y [bi, fi, oi] = (\<Sum>i<ni. get X [bi, i] * get V [fi, oi, i]))"
  using assms by (simp add: tensordot_def nd_simps)

lemma tensordot_bo_foi:
  assumes "shape dY = [nb, no]" and "shape V = [nf, no, ni]"
  shows "\<exists>Y. tensordot dY V [1] [1] = Inr Y \<and> shape Y = [nb, nf, ni] \<and> wf Y \<and>
           (\<forall>bi<nb. \<forall>fi<nf. \<forall>i<ni.
              get Y [bi, fi, i] = (\<Sum>oi<no. get dY [bi, oi] * get V [fi, oi, i]))"
  using assms by (simp add: tensordot_def nd_simps)

lemma tensordot_bo_bfi:
  assumes "shape dY = [nb, no]" and "shape Xf = [nb, nf, ni]"
  shows "\<exists>Y. tensordot dY Xf [0] [0] = Inr Y \<and> shape Y = [no, nf, ni] \<and> wf Y \<and>
           (\<forall>oi<no. \<forall>fi<nf. \<forall>i<ni.
              get Y [oi, fi, i] = (\<Sum>bi<nb. get dY [bi, oi] * get Xf [bi, fi, i]))"
  using assms by (simp add: tensordot_def nd_simps)

lemma bcast_index_last: "oi < no \<Longrightarrow> bcast_index [no] [bi, fi, oi] = [oi]"
  by (simp add: bcast_index_def)

section \<open>The affine layer: forward pass\<close>

text \<open>
  Claim C1.  For a layer with resolved dimensions and an input batch \<open>X\<close> of shape
  \<open>(batch_size, input_width)\<close>, \<open>begin_update\<close> returns an output \<open>Y\<close> of shape
  \<open>(batch_size, feature_count, output_width)\<close> with
  \<open>Y[b,f,o] = sum_i X[b,i] * W[f,o,i] + bias[o]\<close>; when the weight buffer is all zero,
  every \<open>Y[b,f,o]\<close> is \<open>bias[o]\<close>, whatever the input.
\<close>

theorem PrecomputableAffine_forward_formula:
  assumes "affine_resolved L" and "shape X = [nb, nI L]"
  shows "\<exists>Y bwd. PrecomputableAffine_begin_update L X = Inr (Y, bwd) \<and>
           shape Y = [nb, nF L, nO L] \<and>
           (\<forall>bi<nb. \<forall>fi<nF L. \<forall>oi<nO L.
              get Y [bi, fi, oi] = (\<Sum>i<nI L. get X [bi, i] * get (W L) [fi, oi, i]) + get (b L) [oi]) \<and>
           ((\<forall>w\<in>set (data (W L)). w = 0) \<longrightarrow>
              (\<forall>bi<nb. \<forall>fi<nF L. \<forall>oi<nO L. get Y [bi, fi, oi] = get (b L) [oi]))"
proof -
  from assms have sh: "shape (W L) = [nF L, nO L, nI L]" "shape (b L) = [nO L]" "wf (W L)"
    by (simp_all add: affine_resolved_def)
  from tensordot_bi_foi[OF assms(2) sh(1)] obtain Yf where
    Yf: "tensordot X (W L) [1] [2] = Inr Yf" "shape Yf = [nb, nF L, nO L]"
    and Yf_get: "\<And>bi fi oi. bi < nb \<Longrightarrow> fi < nF L \<Longrightarrow> oi < nO L \<Longrightarrow>
      get Yf [bi, fi, oi] = (\<Sum>i<nI L. get X [bi, i] * get (W L) [fi, oi, i])"
    by blast
  let ?Y = "tabulate (shape Yf) (\<lambda>ix. get Yf ix + get (b L) (bcast_index (shape (b L)) ix))"
  have bc: "broadcastable (shape Yf) (shape (b L))"
    by (simp add: broadcastable_def Yf(2) sh(2))
  have run: "PrecomputableAffine_begin_update L X = Inr (?Y, PrecomputableAffine_backward X)"
    using Yf(1) bc
    by (simp add: PrecomputableAffine_begin_update_def PrecomputableAffine_forward_def
        try_bind_def iadd_def)
  have formula: "get ?Y [bi, fi, oi] = (\<Sum>i<nI L. get X [bi, i] * get (W L) [fi, oi, i]) + get (b L) [oi]"
    if "bi < nb" "fi < nF L" "oi < nO L" for bi fi oi
    using that by (simp add: Yf(2) sh(2) get_tabulate in_range_def Yf_get bcast_index_last)
  have zero: "get ?Y [bi, fi, oi] = get (b L) [oi]"
    if z: "\<forall>w\<in>set (data (W L)). w = 0" and r: "bi < nb" "fi < nF L" "oi < nO L" for bi fi oi
  proof -
    have "get (W L) [fi, oi, i] = 0" if "i < nI L" for i
      using get_in_data[OF sh(3), of "[fi, oi, i]"] z r that by (simp add: sh(1) in_range_def)
    then show ?thesis using formula[OF r] by simp
  qed
  show ?thesis using run formula zero by (auto simp: shape_tabulate Yf(2))
qed

lemma affine_example_resolved: "affine_resolved affine_example"
  by (simp add: affine_example_def affine_resolved_def wf_def)

lemmas example_simps = affine_example_def X_example_def X2_example_def dY_example_def
  ids_example_def maxouts_example_def dYp_example_def get_def lessThan_Suc eval_nat_numeral

theorem PrecomputableAffine_forward_formula_witness:
  "affine_resolved affine_example \<and> shape X_example = [1, nI affine_example] \<and>
   (\<exists>Y bwd. PrecomputableAffine_begin_update affine_example X_example = Inr (Y, bwd) \<and>
      shape Y = [1, 1, 2] \<and> get Y [0, 0, 0] = 13 \<and> get Y [0, 0, 1] = 27)"
proof -
  have h: "shape X_example = [1, nI affine_example]"
    by (simp add: example_simps)
  from PrecomputableAffine_forward_formula[OF affine_example_resolved h]
  obtain Y bwd where run: "PrecomputableAffine_begin_update affine_example X_example = Inr (Y, bwd)"
    and sh: "shape Y = [1, nF affine_example, nO affine_example]"
    and f: "\<forall>bi<1. \<forall>fi<nF affine_example. \<forall>oi<nO affine_example.
      get Y [bi, fi, oi] = (\<Sum>i<nI affine_example. get X_example [bi, i] * get (W affine_example) [fi, oi, i])
        + get (b affine_example) [oi]"
    by (elim exE conjE)
  have "get Y [0, 0, 0] = 13" using f[rule_format, of 0 0 0] by (simp add: example_simps)
  moreover have "get Y [0, 0, 1] = 27" using f[rule_format, of 0 0 1] by (simp add: example_simps)
  moreover have "shape Y = [1, 1, 2]" using sh by (simp add: example_simps)
  ultimately show ?thesis using run h affine_example_resolved by (intro conjI exI)
qed

lemma take_rows_bfi:
  assumes "shape X = [n, ni]" and "shape ids = [nb, nf]"
    and "\<forall>v\<in>set (data ids). - int n \<le> v \<and> v < int n"
  shows "\<exists>Xf. take_rows X ids = Inr Xf \<and> shape Xf = [nb, nf, ni] \<and>
           (\<forall>bi<nb. \<forall>fi<nf. \<forall>i<ni.
              get Xf [bi, fi, i] = get X [py_index n (get ids [bi, fi]), i])"
proof -
  have "\<not> (\<exists>v\<in>set (data ids). v < - int n \<or> int n \<le> v)"
    using assms(3) by auto
  then show ?thesis using assms(1,2) by (simp add: take_rows_def nd_simps)
qed

lemma transpose_ofi_foi:
  assumes "shape A = [no, nf, ni]"
  shows "\<exists>T. transpose_nd A [1, 0, 2] = Inr T \<and> shape T = [nf, no, ni] \<and>
           (\<forall>fi<nf. \<forall>oi<no. \<forall>i<ni. get T [fi, oi, i] = get A [oi, fi, i])"
  using assms by (simp add: transpose_nd_def nd_simps)

lemma sum_axis0_bo:
  assumes "shape dY = [nb, no]"
  shows "\<exists>S. sum_axis0 dY = Inr S \<and> shape S = [no] \<and>
           (\<forall>oi<no. get S [oi] = (\<Sum>bi<nb. get dY [bi, oi]))"
  using assms by (simp add: sum_axis0_def nd_simps)

lemma bcast_index_same: "list_all2 (<) ix sh \<Longrightarrow> bcast_index sh ix = ix"
proof -
  assume a: "list_all2 (<) ix sh"
  then have len: "length ix = length sh" by (rule list_all2_lengthD)
  have "map2 (\<lambda>d i. if d = 1 then 0 else i) sh ix = ix"
    using a by (induction ix sh rule: list_all2_induct) auto
  then show ?thesis by (simp add: bcast_index_def len)
qed

lemma broadcastable_same: "broadcastable sh sh"
  by (simp add: broadcastable_def list_all2_same)

lemma iadd_same_shape:
  assumes "shape B = shape A"
  shows "\<exists>R. iadd A B = Inr R \<and> shape R = shape A \<and> wf R \<and>
           (\<forall>ix. in_range (shape A) ix \<longrightarrow> get R ix = get A ix + get B ix)"
  using assms
  by (simp add: iadd_def broadcastable_same shape_tabulate wf_tabulate get_tabulate
      bcast_index_same in_range_def)

lemma affine_gradients_run:
  assumes res: "affine_resolved L" and X: "shape X = [n, nI L]" and dY: "shape dY = [nb, nO L]"
    and ids: "shape ids = [nb, nF L]" and rng: "\<forall>v\<in>set (data ids). - int n \<le> v \<and> v < int n"
  shows "\<exists>dXf L'. PrecomputableAffine_gradients X (dY, ids) L = Inr (dXf, L') \<and>
      shape dXf = [nb, nF L, nI L] \<and>
      (\<forall>bi<nb. \<forall>fi<nF L. \<forall>i<nI L.
         get dXf [bi, fi, i] = (\<Sum>oi<nO L. get dY [bi, oi] * get (W L) [fi, oi, i])) \<and>
      shape (d_W L') = [nF L, nO L, nI L] \<and>
      (\<forall>fi<nF L. \<forall>oi<nO L. \<forall>i<nI L.
         get (d_W L') [fi, oi, i] = get (d_W L) [fi, oi, i] +
           (\<Sum>bi<nb. get dY [bi, oi] * get X [py_index n (get ids [bi, fi]), i])) \<and>
      shape (d_b L') = [nO L] \<and>
      (\<forall>oi<nO L. get (d_b L') [oi] = get (d_b L) [oi] + (\<Sum>bi<nb. get dY [bi, oi])) \<and>
      wf (d_W L') \<and> wf (d_b L') \<and>
      L' = L\<lparr>d_W := d_W L', d_b := d_b L'\<rparr>"
proof -
  from res have sh: "shape (W L) = [nF L, nO L, nI L]" "shape (d_W L) = [nF L, nO L, nI L]"
    "shape (d_b L) = [nO L]"
    by (simp_all add: affine_resolved_def)
  from take_rows_bfi[OF X ids rng] obtain Xf where
    Xf: "take_rows X ids = Inr Xf" "shape Xf = [nb, nF L, nI L]"
    "\<forall>bi<nb. \<forall>fi<nF L. \<forall>i<nI L. get Xf [bi, fi, i] = get X [py_index n (get ids [bi, fi]), i]"
    by (elim exE conjE)
  from tensordot_bo_foi[OF dY sh(1)] obtain dXf where
    dXf: "tensordot dY (W L) [1] [1] = Inr dXf" "shape dXf = [nb, nF L, nI L]"
    "\<forall>bi<nb. \<forall>fi<nF L. \<forall>i<nI L.
       get dXf [bi, fi, i] = (\<Sum>oi<nO L. get dY [bi, oi] * get (W L) [fi, oi, i])"
    by (elim exE conjE)
  from tensordot_bo_bfi[OF dY Xf(2)] obtain dW where
    dW: "tensordot dY Xf [0] [0] = Inr dW" "shape dW = [nO L, nF L, nI L]"
    "\<forall>oi<nO L. \<forall>fi<nF L. \<forall>i<nI L.
       get dW [oi, fi, i] = (\<Sum>bi<nb. get dY [bi, oi] * get Xf [bi, fi, i])"
    by (elim exE conjE)
  from transpose_ofi_foi[OF dW(2)] obtain dWt where
    dWt: "transpose_nd dW [1, 0, 2] = Inr dWt" "shape dWt = [nF L, nO L, nI L]"
    "\<forall>fi<nF L. \<forall>oi<nO L. \<forall>i<nI L. get dWt [fi, oi, i] = get dW [oi, fi, i]"
    by (elim exE conjE)
  have "shape dWt = shape (d_W L)" by (simp add: dWt(2) sh(2))
  from iadd_same_shape[OF this] obtain R1 where
    R1: "iadd (d_W L) dWt = Inr R1" "shape R1 = shape (d_W L)" "wf R1"
    "\<forall>ix. in_range (shape (d_W L)) ix \<longrightarrow> get R1 ix = get (d_W L) ix + get dWt ix"
    by (elim exE conjE)
  from sum_axis0_bo[OF dY] obtain db where
    db: "sum_axis0 dY = Inr db" "shape db = [nO L]"
    "\<forall>oi<nO L. get db [oi] = (\<Sum>bi<nb. get dY [bi, oi])"
    by (elim exE conjE)
  have "shape db = shape (d_b L)" by (simp add: db(2) sh(3))
  from iadd_same_shape[OF this] obtain R2 where
    R2: "iadd (d_b L) db = Inr R2" "shape R2 = shape (d_b L)" "wf R2"
    "\<forall>ix. in_range (shape (d_b L)) ix \<longrightarrow> get R2 ix = get (d_b L) ix + get db ix"
    by (elim exE conjE)
  let ?L' = "L\<lparr>d_W := R1, d_b := R2\<rparr>"
  have run: "PrecomputableAffine_gradients X (dY, ids) L = Inr (dXf, ?L')"
    using Xf(1) dXf(1) dW(1) dWt(1) R1(1) db(1) R2(1)
    by (simp add: PrecomputableAffine_gradients_def try_bind_def)
  have gW: "get R1 [fi, oi, i] = get (d_W L) [fi, oi, i] +
           (\<Sum>bi<nb. get dY [bi, oi] * get X [py_index n (get ids [bi, fi]), i])"
    if "fi < nF L" "oi < nO L" "i < nI L" for fi oi i
  proof -
    have "get R1 [fi, oi, i] = get (d_W L) [fi, oi, i] + get dWt [fi, oi, i]"
      using R1(4) that by (simp add: sh(2) in_range_def)
    also have "get dWt [fi, oi, i] = get dW [oi, fi, i]" using dWt(3) that by simp
    also have "\<dots> = (\<Sum>bi<nb. get dY [bi, oi] * get Xf [bi, fi, i])" using dW(3) that by simp
    also have "\<dots> = (\<Sum>bi<nb. get dY [bi, oi] * get X [py_index n (get ids [bi, fi]), i])"
      using Xf(3) that by (intro sum.cong) simp_all
    finally show ?thesis .
  qed
  have gb: "get R2 [oi] = get (d_b L) [oi] + (\<Sum>bi<nb. get dY [bi, oi])" if "oi < nO L" for oi
    using R2(4) db(3) that by (simp add: sh(3) in_range_def)
  show ?thesis
    apply (rule exI[of _ dXf], rule exI[of _ ?L'])
    using run dXf(2,3) R1(2,3) R2(2,3) gW gb by (simp add: sh)
qed

lemma maxouts_gradients_run:
  assumes res: "maxouts_resolved M" and X: "shape X = [n, nI M]" and dY: "shape dYp = [nb, nO M, nP M]"
    and ids: "shape ids = [nb, nF M]" and rng: "\<forall>v\<in>set (data ids). - int n \<le> v \<and> v < int n"
  shows "\<exists>dXf M'. PrecomputableMaxouts_gradients X (dYp, ids) M = Inr (dXf, M') \<and>
      shape dXf = [nb, nF M, nI M] \<and> shape (d_W M') = shape (d_W M) \<and>
      shape (d_b M') = shape (d_b M) \<and> M' = M\<lparr>d_W := d_W M', d_b := d_b M'\<rparr>"
proof -
  from res have sh: "shape (W M) = [nF M, nO M, nP M, nI M]" "shape (d_W M) = [nF M, nO M, nP M, nI M]"
    "shape (d_b M) = [nO M, nP M]"
    by (simp_all add: maxouts_resolved_def)
  from take_rows_bfi[OF X ids rng] obtain Xf where
    Xf: "take_rows X ids = Inr Xf" "shape Xf = [nb, nF M, nI M]"
    by (elim exE conjE)
  obtain dXf where dXf: "tensordot dYp (W M) [1, 2] [1, 2] = Inr dXf" "shape dXf = [nb, nF M, nI M]"
    using dY sh(1) by (simp add: tensordot_def nd_simps)
  obtain dW where dW: "tensordot dYp Xf [0] [0] = Inr dW" "shape dW = [nO M, nP M, nF M, nI M]"
    using dY Xf(2) by (simp add: tensordot_def nd_simps)
  obtain dWt where dWt: "transpose_nd dW [2, 0, 1, 3] = Inr dWt" "shape dWt = [nF M, nO M, nP M, nI M]"
    using dW(2) by (simp add: transpose_nd_def nd_simps)
  have "shape dWt = shape (d_W M)" by (simp add: dWt(2) sh(2))
  from iadd_same_shape[OF this] obtain R1 where R1: "iadd (d_W M) dWt = Inr R1"
    and R1s: "shape R1 = shape (d_W M)"
    by (elim exE conjE)
  obtain db where db: "sum_axis0 dYp = Inr db" "shape db = [nO M, nP M]"
    using dY by (simp add: sum_axis0_def nd_simps)
  have "shape db = shape (d_b M)" by (simp add: db(2) sh(3))
  from iadd_same_shape[OF this] obtain R2 where R2: "iadd (d_b M) db = Inr R2"
    and R2s: "shape R2 = shape (d_b M)"
    by (elim exE conjE)
  have "PrecomputableMaxouts_gradients X (dYp, ids) M = Inr (dXf, M\<lparr>d_W := R1, d_b := R2\<rparr>)"
    using Xf(1) dXf(1) dW(1) dWt(1) R1 db(1) R2
    by (simp add: PrecomputableMaxouts_gradients_def try_bind_def)
  then show ?thesis using dXf(2) R1s R2s
    by (intro exI[of _ dXf] exI[of _ "M\<lparr>d_W := R1, d_b := R2\<rparr>"]) simp
qed

lemma call_sgd_calls:
  "snd (call_sgd sgd L) = (case sgd of None \<Rightarrow> [] | Some opt \<Rightarrow> [(mem_weights L, mem_gradient L, layer_id L)])"
  by (simp add: call_sgd_def split: option.splits prod.splits)

lemma call_sgd_layer_id: "layer_id (fst (call_sgd sgd L)) = layer_id L"
  by (simp add: call_sgd_def split: option.splits prod.splits)

lemma call_sgd_None: "call_sgd None L = (L, [])"
  by (simp add: call_sgd_def)

lemma call_sgd_state:
  "(case sgd of
      None \<Rightarrow> fst (call_sgd sgd L) = L
    | Some opt \<Rightarrow>
        (case opt (W L, b L) (d_W L, d_b L) (layer_id L) of
           ((W', b'), (d_W', d_b')) \<Rightarrow>
             fst (call_sgd sgd L) = L\<lparr>W := W', b := b', d_W := d_W', d_b := d_b'\<rparr>))"
  by (simp add: call_sgd_def mem_weights_def mem_gradient_def split: option.splits prod.splits)

lemma call_sgd_log:
  "snd (call_sgd sgd L) =
     (case sgd of None \<Rightarrow> [] | Some opt \<Rightarrow> [((W L, b L), (d_W L, d_b L), layer_id L)])"
  by (simp add: call_sgd_def mem_weights_def mem_gradient_def split: option.splits prod.splits)

lemma maxouts_example_resolved: "maxouts_resolved maxouts_example"
  by (simp add: maxouts_example_def maxouts_resolved_def wf_def)

lemma ids_example_valid: "valid_ids 2 ids_example"
  by (simp add: valid_ids_def ids_example_def)

section \<open>The affine layer: backward pass\<close>

text \<open>
  Claim C2.  The backward closure, given the output gradient \<open>dY\<close> of shape
  \<open>(batch_size, output_width)\<close> and the index array \<open>ids\<close>, returns the input gradient
  \<open>dXf[b,f,i] = sum_o dY[b,o] * W[f,o,i]\<close>, and it adds
  \<open>sum_b dY[b,o] * X[ids][b,f,i]\<close> to \<open>d_W[f,o,i]\<close> and \<open>sum_b dY[b,o]\<close> to \<open>d_b[o]\<close>:
  the earlier contents of both gradient buffers are kept in the sums.  Here \<open>L'\<close> is the
  layer when the gradients are accumulated, before an optimizer, if one is given, is
  handed the buffers; nothing but \<open>d_W\<close> and \<open>d_b\<close> has changed in it.
\<close>

theorem PrecomputableAffine_backward_formula:
  assumes "affine_resolved L" and "shape X = [n, nI L]" and "shape dY = [nb, nO L]"
    and "shape ids = [nb, nF L]" and "valid_ids n ids"
  shows "\<exists>dXf L'. PrecomputableAffine_backward X (dY, ids) sgd L =
                     Inr (dXf, fst (call_sgd sgd L'), snd (call_sgd sgd L')) \<and>
      shape dXf = [nb, nF L, nI L] \<and>
      (\<forall>bi<nb. \<forall>fi<nF L. \<forall>i<nI L.
         get dXf [bi, fi, i] = (\<Sum>oi<nO L. get dY [bi, oi] * get (W L) [fi, oi, i])) \<and>
      shape (d_W L') = [nF L, nO L, nI L] \<and>
      (\<forall>fi<nF L. \<forall>oi<nO L. \<forall>i<nI L.
         get (d_W L') [fi, oi, i] = get (d_W L) [fi, oi, i] +
           (\<Sum>bi<nb. get dY [bi, oi] * get X [py_index n (get ids [bi, fi]), i])) \<and>
      shape (d_b L') = [nO L] \<and>
      (\<forall>oi<nO L. get (d_b L') [oi] = get (d_b L) [oi] + (\<Sum>bi<nb. get dY [bi, oi])) \<and>
      L' = L\<lparr>d_W := d_W L', d_b := d_b L'\<rparr>"
proof -
  from assms(5) have rng: "\<forall>v\<in>set (data ids). - int n \<le> v \<and> v < int n"
    by (simp add: valid_ids_def)
  from affine_gradients_run[OF assms(1-4) rng] obtain dXf L' where
    run: "PrecomputableAffine_gradients X (dY, ids) L = Inr (dXf, L')"
    and rest: "shape dXf = [nb, nF L, nI L] \<and>
      (\<forall>bi<nb. \<forall>fi<nF L. \<forall>i<nI L.
         get dXf [bi, fi, i] = (\<Sum>oi<nO L. get dY [bi, oi] * get (W L) [fi, oi, i])) \<and>
      shape (d_W L') = [nF L, nO L, nI L] \<and>
      (\<forall>fi<nF L. \<forall>oi<nO L. \<forall>i<nI L.
         get (d_W L') [fi, oi, i] = get (d_W L) [fi, oi, i] +
           (\<Sum>bi<nb. get dY [bi, oi] * get X [py_index n (get ids [bi, fi]), i])) \<and>
      shape (d_b L') = [nO L] \<and>
      (\<forall>oi<nO L. get (d_b L') [oi] = get (d_b L) [oi] + (\<Sum>bi<nb. get dY [bi, oi])) \<and>
      wf (d_W L') \<and> wf (d_b L') \<and>
      L' = L\<lparr>d_W := d_W L', d_b := d_b L'\<rparr>"
    by (elim exE conjE) (rule that, simp_all)
  have "PrecomputableAffine_backward X (dY, ids) sgd L =
          Inr (dXf, fst (call_sgd sgd L'), snd (call_sgd sgd L'))"
    using run by (simp add: PrecomputableAffine_backward_def try_bind_def split: prod.splits)
  with rest show ?thesis by (intro exI[of _ dXf] exI[of _ L']) simp
qed

theorem PrecomputableAffine_backward_formula_witness:
  "affine_resolved affine_example \<and> valid_ids 2 ids_example \<and>
   (\<exists>dXf L'. PrecomputableAffine_backward X2_example (dY_example, ids_example) None affine_example
        = Inr (dXf, L', []) \<and>
      get dXf [1, 0, 1] = 22 \<and> get (d_W L') [0, 1, 0] = 8 \<and> get (d_b L') [1] = 6)"
proof -
  have a: "shape X2_example = [2, nI affine_example]" "shape dY_example = [2, nO affine_example]"
    "shape ids_example = [2, nF affine_example]"
    by (simp_all add: example_simps)
  from PrecomputableAffine_backward_formula[OF affine_example_resolved a ids_example_valid, of None]
  obtain dXf L' where
    run: "PrecomputableAffine_backward X2_example (dY_example, ids_example) None affine_example
        = Inr (dXf, fst (call_sgd None L'), snd (call_sgd None L'))"
    and f1: "\<forall>bi<2. \<forall>fi<nF affine_example. \<forall>i<nI affine_example.
         get dXf [bi, fi, i] =
           (\<Sum>oi<nO affine_example. get dY_example [bi, oi] * get (W affine_example) [fi, oi, i])"
    and f2: "\<forall>fi<nF affine_example. \<forall>oi<nO affine_example. \<forall>i<nI affine_example.
         get (d_W L') [fi, oi, i] = get (d_W affine_example) [fi, oi, i] +
           (\<Sum>bi<2. get dY_example [bi, oi] *
              get X2_example [py_index 2 (get ids_example [bi, fi]), i])"
    and f3: "\<forall>oi<nO affine_example.
         get (d_b L') [oi] = get (d_b affine_example) [oi] + (\<Sum>bi<2. get dY_example [bi, oi])"
    by (elim exE conjE)
  have "get dXf [1, 0, 1] = 22" using f1[rule_format, of 1 0 1] by (simp add: example_simps)
  moreover have "get (d_W L') [0, 1, 0] = 8"
    using f2[rule_format, of 0 1 0] by (simp add: example_simps py_index_def)
  moreover have "get (d_b L') [1] = 6" using f3[rule_format, of 1] by (simp add: example_simps)
  moreover have "PrecomputableAffine_backward X2_example (dY_example, ids_example) None affine_example
        = Inr (dXf, L', [])"
    using run by (simp add: call_sgd_None)
  ultimately show ?thesis using affine_example_resolved ids_example_valid by (intro conjI exI)
qed

section \<open>The optimizer callback\<close>

text \<open>
  Claim C9.  In the backward pass of both layers the optimizer callback is called if and
  only if one is supplied, and then once: with the weight buffer and the gradient buffer
  of the layer, as they are after the gradients of this pass are accumulated, and with the
  key \<open>self.id\<close>.  Without an optimizer the layer is left as the accumulation left it;
  with one, its buffers are what the optimizer made of them.  The backward pass leaves
  \<open>self.id\<close> as it is, so every backward pass of the layer passes the same key.
\<close>

theorem optimizer_callback_once:
  assumes "affine_resolved L" and "shape X = [n, nI L]" and "shape dY = [nb, nO L]"
    and "shape ids = [nb, nF L]" and "valid_ids n ids"
    and "maxouts_resolved M" and "shape XM = [m, nI M]" and "shape dYp = [mb, nO M, nP M]"
    and "shape idsM = [mb, nF M]" and "valid_ids m idsM"
  shows "(\<exists>dXf L' L''.
              PrecomputableAffine_gradients X (dY, ids) L = Inr (dXf, L') \<and>
              W L' = W L \<and> b L' = b L \<and> layer_id L' = layer_id L \<and>
              shape (d_W L') = shape (d_W L) \<and> shape (d_b L') = shape (d_b L) \<and>
              PrecomputableAffine_backward X (dY, ids) sgd L =
                Inr (dXf, L'',
                     case sgd of None \<Rightarrow> []
                     | Some opt \<Rightarrow> [((W L', b L'), (d_W L', d_b L'), layer_id L)]) \<and>
              (case sgd of
                 None \<Rightarrow> L'' = L'
               | Some opt \<Rightarrow>
                   (case opt (W L', b L') (d_W L', d_b L') (layer_id L) of
                      ((W', b'), (d_W', d_b')) \<Rightarrow>
                        L'' = L'\<lparr>W := W', b := b', d_W := d_W', d_b := d_b'\<rparr>)) \<and>
              layer_id L'' = layer_id L) \<and>
         (\<exists>dXf M' M''.
              PrecomputableMaxouts_gradients XM (dYp, idsM) M = Inr (dXf, M') \<and>
              W M' = W M \<and> b M' = b M \<and> layer_id M' = layer_id M \<and>
              shape (d_W M') = shape (d_W M) \<and> shape (d_b M') = shape (d_b M) \<and>
              PrecomputableMaxouts_backward XM (dYp, idsM) sgd M =
                Inr (dXf, M'',
                     case sgd of None \<Rightarrow> []
                     | Some opt \<Rightarrow> [((W M', b M'), (d_W M', d_b M'), layer_id M)]) \<and>
              (case sgd of
                 None \<Rightarrow> M'' = M'
               | Some opt \<Rightarrow>
                   (case opt (W M', b M') (d_W M', d_b M') (layer_id M) of
                      ((W', b'), (d_W', d_b')) \<Rightarrow>
                        M'' = M'\<lparr>W := W', b := b', d_W := d_W', d_b := d_b'\<rparr>)) \<and>
              layer_id M'' = layer_id M)"
proof (rule conjI)
  from assms(5) have rng: "\<forall>v\<in>set (data ids). - int n \<le> v \<and> v < int n"
    by (simp add: valid_ids_def)
  from affine_gradients_run[OF assms(1-4) rng] obtain dXf L' where
    run: "PrecomputableAffine_gradients X (dY, ids) L = Inr (dXf, L')"
    and shW0: "shape (d_W L') = [nF L, nO L, nI L]" and shb0: "shape (d_b L') = [nO L]"
    and L': "L' = L\<lparr>d_W := d_W L', d_b := d_b L'\<rparr>"
    by (elim exE conjE)
  have shW: "shape (d_W L') = shape (d_W L)" and shb: "shape (d_b L') = shape (d_b L)"
    using shW0 shb0 assms(1) by (simp_all add: affine_resolved_def)
  have frame: "W L' = W L" "b L' = b L" "layer_id L' = layer_id L"
    by (subst L', simp)+
  have bw: "PrecomputableAffine_backward X (dY, ids) sgd L =
          Inr (dXf, fst (call_sgd sgd L'),
               case sgd of None \<Rightarrow> []
               | Some opt \<Rightarrow> [((W L', b L'), (d_W L', d_b L'), layer_id L)])"
  proof -
    have "PrecomputableAffine_backward X (dY, ids) sgd L =
            Inr (dXf, fst (call_sgd sgd L'), snd (call_sgd sgd L'))"
      using run by (simp add: PrecomputableAffine_backward_def try_bind_def split: prod.splits)
    then show ?thesis
      unfolding call_sgd_log by (simp add: frame split: option.splits)
  qed
  have st: "(case sgd of
               None \<Rightarrow> fst (call_sgd sgd L') = L'
             | Some opt \<Rightarrow>
                 (case opt (W L', b L') (d_W L', d_b L') (layer_id L) of
                    ((W', b'), (d_W', d_b')) \<Rightarrow>
                      fst (call_sgd sgd L') = L'\<lparr>W := W', b := b', d_W := d_W', d_b := d_b'\<rparr>))"
    using call_sgd_state[of sgd "L'"] by (simp add: frame split: option.splits)
  show "(\<exists>dXf L' L''.
              PrecomputableAffine_gradients X (dY, ids) L = Inr (dXf, L') \<and>
              W L' = W L \<and> b L' = b L \<and> layer_id L' = layer_id L \<and>
              shape (d_W L') = shape (d_W L) \<and> shape (d_b L') = shape (d_b L) \<and>
              PrecomputableAffine_backward X (dY, ids) sgd L =
                Inr (dXf, L'',
                     case sgd of None \<Rightarrow> []
                     | Some opt \<Rightarrow> [((W L', b L'), (d_W L', d_b L'), layer_id L)]) \<and>
              (case sgd of
                 None \<Rightarrow> L'' = L'
               | Some opt \<Rightarrow>
                   (case opt (W L', b L') (d_W L', d_b L') (layer_id L) of
                      ((W', b'), (d_W', d_b')) \<Rightarrow>
                        L'' = L'\<lparr>W := W', b := b', d_W := d_W', d_b := d_b'\<rparr>)) \<and>
              layer_id L'' = layer_id L)"
  proof (intro exI conjI)
    show "PrecomputableAffine_gradients X (dY, ids) L = Inr (dXf, L')" by (rule run)
    show "W L' = W L" "b L' = b L" "layer_id L' = layer_id L" by (rule frame)+
    show "shape (d_W L') = shape (d_W L)" "shape (d_b L') = shape (d_b L)"
      by (rule shW, rule shb)
    show "PrecomputableAffine_backward X (dY, ids) sgd L =
          Inr (dXf, fst (call_sgd sgd L'),
               case sgd of None \<Rightarrow> []
               | Some opt \<Rightarrow> [((W L', b L'), (d_W L', d_b L'), layer_id L)])"
      by (rule bw)
    show "(case sgd of
               None \<Rightarrow> fst (call_sgd sgd L') = L'
             | Some opt \<Rightarrow>
                 (case opt (W L', b L') (d_W L', d_b L') (layer_id L) of
                    ((W', b'), (d_W', d_b')) \<Rightarrow>
                      fst (call_sgd sgd L') = L'\<lparr>W := W', b := b', d_W := d_W', d_b := d_b'\<rparr>))"
      by (rule st)
    show "layer_id (fst (call_sgd sgd L')) = layer_id L"
      by (simp add: call_sgd_layer_id frame)
  qed
next
  from assms(10) have rng: "\<forall>v\<in>set (data idsM). - int m \<le> v \<and> v < int m"
    by (simp add: valid_ids_def)
  from maxouts_gradients_run[OF assms(6-9) rng] obtain dXf M' where
    run: "PrecomputableMaxouts_gradients XM (dYp, idsM) M = Inr (dXf, M')"
    and shW: "shape (d_W M') = shape (d_W M)" and shb: "shape (d_b M') = shape (d_b M)"
    and M': "M' = M\<lparr>d_W := d_W M', d_b := d_b M'\<rparr>"
    by (elim exE conjE)
  have frame: "W M' = W M" "b M' = b M" "layer_id M' = layer_id M"
    by (subst M', simp)+
  have bw: "PrecomputableMaxouts_backward XM (dYp, idsM) sgd M =
          Inr (dXf, fst (call_sgd sgd M'),
               case sgd of None \<Rightarrow> []
               | Some opt \<Rightarrow> [((W M', b M'), (d_W M', d_b M'), layer_id M)])"
  proof -
    have "PrecomputableMaxouts_backward XM (dYp, idsM) sgd M =
            Inr (dXf, fst (call_sgd sgd M'), snd (call_sgd sgd M'))"
      using run by (simp add: PrecomputableMaxouts_backward_def try_bind_def split: prod.splits)
    then show ?thesis
      unfolding call_sgd_log by (simp add: frame split: option.splits)
  qed
  have st: "(case sgd of
               None \<Rightarrow> fst (call_sgd sgd M') = M'
             | Some opt \<Rightarrow>
                 (case opt (W M', b M') (d_W M', d_b M') (layer_id M) of
                    ((W', b'), (d_W', d_b')) \<Rightarrow>
                      fst (call_sgd sgd M') = M'\<lparr>W := W', b := b', d_W := d_W', d_b := d_b'\<rparr>))"
    using call_sgd_state[of sgd "M'"] by (simp add: frame split: option.splits)
  show "(\<exists>dXf M' M''.
              PrecomputableMaxouts_gradients XM (dYp, idsM) M = Inr (dXf, M') \<and>
              W M' = W M \<and> b M' = b M \<and> layer_id M' = layer_id M \<and>
              shape (d_W M') = shape (d_W M) \<and> shape (d_b M') = shape (d_b M) \<and>
              PrecomputableMaxouts_backward XM (dYp, idsM) sgd M =
                Inr (dXf, M'',
                     case sgd of None \<Rightarrow> []
                     | Some opt \<Rightarrow> [((W M', b M'), (d_W M', d_b M'), layer_id M)]) \<and>
              (case sgd of
                 None \<Rightarrow> M'' = M'
               | Some opt \<Rightarrow>
                   (case opt (W M', b M') (d_W M', d_b M') (layer_id M) of
                      ((W', b'), (d_W', d_b')) \<Rightarrow>
                        M'' = M'\<lparr>W := W', b := b', d_W := d_W', d_b := d_b'\<rparr>)) \<and>
              layer_id M'' = layer_id M)"
  proof (intro exI conjI)
    show "PrecomputableMaxouts_gradients XM (dYp, idsM) M = Inr (dXf, M')" by (rule run)
    show "W M' = W M" "b M' = b M" "layer_id M' = layer_id M" by (rule frame)+
    show "shape (d_W M') = shape (d_W M)" "shape (d_b M') = shape (d_b M)"
      by (rule shW, rule shb)
    show "PrecomputableMaxouts_backward XM (dYp, idsM) sgd M =
          Inr (dXf, fst (call_sgd sgd M'),
               case sgd of None \<Rightarrow> []
               | Some opt \<Rightarrow> [((W M', b M'), (d_W M', d_b M'), layer_id M)])"
      by (rule bw)
    show "(case sgd of
               None \<Rightarrow> fst (call_sgd sgd M') = M'
             | Some opt \<Rightarrow>
                 (case opt (W M', b M') (d_W M', d_b M') (layer_id M) of
                    ((W', b'), (d_W', d_b')) \<Rightarrow>
                      fst (call_sgd sgd M') = M'\<lparr>W := W', b := b', d_W := d_W', d_b := d_b'\<rparr>))"
      by (rule st)
    show "layer_id (fst (call_sgd sgd M')) = layer_id M"
      by (simp add: call_sgd_layer_id frame)
  qed
qed

theorem optimizer_callback_once_witness:
  "affine_resolved affine_example \<and> maxouts_resolved maxouts_example \<and> valid_ids 2 ids_example \<and>
   (\<exists>dXf L'' g.
      PrecomputableAffine_backward X2_example (dY_example, ids_example) (Some zero_grad_optimizer)
        affine_example = Inr (dXf, L'', [((W affine_example, b affine_example), g, 7)]) \<and>
      layer_id L'' = 7 \<and> W L'' = W affine_example \<and>
      d_W L'' = zeros [1, 2, 2] \<and> d_b L'' = zeros [2]) \<and>
   (\<exists>dXf L'' g.
      PrecomputableAffine_backward X2_example (dY_example, ids_example) (Some ones_optimizer)
        affine_example = Inr (dXf, L'', [((W affine_example, b affine_example), g, 7)]) \<and>
      W L'' = \<lparr>shape = [1, 2, 2], data = [1, 1, 1, 1]\<rparr> \<and> d_W L'' = zeros [1, 2, 2]) \<and>
   (\<exists>dXf L''.
      PrecomputableAffine_backward X2_example (dY_example, ids_example) None
        affine_example = Inr (dXf, L'', []) \<and> W L'' = W affine_example) \<and>
   (\<exists>dXf M'' g.
      PrecomputableMaxouts_backward X2_example (dYp_example, ids_example) (Some zero_grad_optimizer)
        maxouts_example = Inr (dXf, M'', [((W maxouts_example, b maxouts_example), g, 8)]) \<and>
      layer_id M'' = 8 \<and> d_W M'' = zeros [1, 1, 2, 2] \<and> d_b M'' = zeros [1, 2])"
proof -
  have a: "shape X2_example = [2, nI affine_example]" "shape dY_example = [2, nO affine_example]"
    "shape ids_example = [2, nF affine_example]"
    by (simp_all add: example_simps)
  have m: "shape X2_example = [2, nI maxouts_example]"
    "shape dYp_example = [2, nO maxouts_example, nP maxouts_example]"
    "shape ids_example = [2, nF maxouts_example]"
    by (simp_all add: example_simps)
  have ids: "layer_id affine_example = 7" "layer_id maxouts_example = 8"
    "shape (d_W affine_example) = [1, 2, 2]" "shape (d_b affine_example) = [2]"
    "shape (d_W maxouts_example) = [1, 1, 2, 2]" "shape (d_b maxouts_example) = [1, 2]"
    "data (W affine_example) = [1, 2, 3, 4]" "shape (W affine_example) = [1, 2, 2]"
    by (simp_all add: affine_example_def maxouts_example_def)
  note zero = optimizer_callback_once[OF affine_example_resolved a ids_example_valid
      maxouts_example_resolved m ids_example_valid, of "Some zero_grad_optimizer"]
  note ones = optimizer_callback_once[OF affine_example_resolved a ids_example_valid
      maxouts_example_resolved m ids_example_valid, of "Some ones_optimizer"]
  note none = optimizer_callback_once[OF affine_example_resolved a ids_example_valid
      maxouts_example_resolved m ids_example_valid, of None]
  have A: "\<exists>dXf L'' g.
      PrecomputableAffine_backward X2_example (dY_example, ids_example) (Some zero_grad_optimizer)
        affine_example = Inr (dXf, L'', [((W affine_example, b affine_example), g, 7)]) \<and>
      layer_id L'' = 7 \<and> W L'' = W affine_example \<and>
      d_W L'' = zeros [1, 2, 2] \<and> d_b L'' = zeros [2]"
    using zero[THEN conjunct1] by (auto simp add: ids zero_grad_optimizer_def)
  have B: "\<exists>dXf L'' g.
      PrecomputableAffine_backward X2_example (dY_example, ids_example) (Some ones_optimizer)
        affine_example = Inr (dXf, L'', [((W affine_example, b affine_example), g, 7)]) \<and>
      W L'' = \<lparr>shape = [1, 2, 2], data = [1, 1, 1, 1]\<rparr> \<and> d_W L'' = zeros [1, 2, 2]"
    using ones[THEN conjunct1] by (auto simp add: ids ones_optimizer_def)
  have C: "\<exists>dXf L''.
      PrecomputableAffine_backward X2_example (dY_example, ids_example) None
        affine_example = Inr (dXf, L'', []) \<and> W L'' = W affine_example"
    using none[THEN conjunct1] by auto
  have D: "\<exists>dXf M'' g.
      PrecomputableMaxouts_backward X2_example (dYp_example, ids_example) (Some zero_grad_optimizer)
        maxouts_example = Inr (dXf, M'', [((W maxouts_example, b maxouts_example), g, 8)]) \<and>
      layer_id M'' = 8 \<and> d_W M'' = zeros [1, 1, 2, 2] \<and> d_b M'' = zeros [1, 2]"
    using zero[THEN conjunct2] by (auto simp add: ids zero_grad_optimizer_def)
  show ?thesis
    using affine_example_resolved maxouts_example_resolved ids_example_valid A B C D
    by (intro conjI)
qed

section \<open>Weight initialization\<close>

text \<open>
  Claim C8.  On a weight buffer whose sum of squares is not zero, the initializers of both
  layers leave the buffer as it is and do not raise, so that initializing again changes
  nothing.  For \<open>PrecomputableAffine\<close> the check is made by \<open>_init_for_precomputed\<close>
  itself, whatever the back-end does; \<open>PrecomputableMaxouts\<close> hands the buffer to the
  back-end's initializer, which makes the check.
\<close>

theorem weight_init_guard:
  assumes "sum_squares V \<noteq> 0"
  shows "PrecomputableAffine_init_W V ops = Inr V \<and>
         PrecomputableMaxouts_init_W V (spec_ops fill) = Inr V \<and>
         try_bind (PrecomputableAffine_init_W V ops) (\<lambda>V'. PrecomputableAffine_init_W V' ops) = Inr V \<and>
         try_bind (PrecomputableMaxouts_init_W V (spec_ops fill))
           (\<lambda>V'. PrecomputableMaxouts_init_W V' (spec_ops fill)) = Inr V"
  using assms
  by (simp add: PrecomputableAffine_init_W_def PrecomputableMaxouts_init_W_def
      init_for_precomputed_def spec_ops_def try_bind_def)

theorem weight_init_guard_witness:
  "sum_squares W_example \<noteq> 0 \<and>
   PrecomputableAffine_init_W W_example ones_ops = Inr W_example \<and>
   PrecomputableMaxouts_init_W W_example (spec_ops (\<lambda>sh. replicate (prod_list sh) 1)) = Inr W_example"
proof -
  have nz: "sum_squares W_example \<noteq> 0" by (simp add: sum_squares_def W_example_def)
  from weight_init_guard[OF nz, of ones_ops "\<lambda>sh. replicate (prod_list sh) 1"] nz
  show ?thesis by simp
qed

text \<open>When the sum of squares is zero the initializer of the back-end does run, on the
  buffer reshaped to \<open>(nO, nF * nI)\<close>; and \<open>PrecomputableMaxouts\<close> has no check of its own.\<close>

lemma init_for_precomputed_zero:
  assumes "sum_squares V = 0" and "shape V = [nf, no, ni]" and "wf V"
    and "length (data (xavier_uniform_init ops \<lparr>shape = [no, nf * ni], data = data V\<rparr>)) = length (data V)"
  shows "init_for_precomputed V ops =
           Inr \<lparr>shape = shape V,
                data = data (xavier_uniform_init ops \<lparr>shape = [no, nf * ni], data = data V\<rparr>)\<rparr>"
  using assms by (simp add: init_for_precomputed_def reshape_def wf_def ndim_def try_bind_def mult.assoc mult.left_commute)

lemma maxouts_init_unguarded: "PrecomputableMaxouts_init_W V ops = Inr (xavier_uniform_init ops V)"
  by (simp add: PrecomputableMaxouts_init_W_def)

section \<open>get_col\<close>

lemma col_view_2d:
  assumes "shape A = [nr, nc]" and "c < nc"
  shows "\<exists>v. col_view A c = Inr v \<and> shape v = [nr] \<and> (\<forall>r<nr. get v [r] = get A [r, c])"
  using assms by (simp add: col_view_def nd_simps)

lemma get_zeros: "in_range sh ix \<Longrightarrow> get (zeros sh) ix = 0"
  by (simp add: zeros_def get_tabulate)

text \<open>
  Claim C10.  For a two-dimensional \<open>X\<close> and a column index \<open>idx\<close> from 0 and below
  the number of columns, the forward of \<open>get_col idx\<close> returns column \<open>idx\<close> of \<open>X\<close>, one
  value for each row; its backward, given a gradient with one entry for each row, returns
  an array of the shape of \<open>X\<close> that has the gradient in column \<open>idx\<close> and zero in every
  other column.
\<close>

theorem get_col_column:
  assumes "0 \<le> idx" and "shape X = [nr, nc]" and "nat idx < nc" and "shape g = [nr]"
  shows "\<exists>fwd out bwd dX.
           get_col idx = Inr fwd \<and> fwd X = Inr (out, bwd) \<and>
           shape out = [nr] \<and> (\<forall>r<nr. get out [r] = get X [r, nat idx]) \<and>
           bwd g = Inr dX \<and> shape dX = shape X \<and>
           (\<forall>r<nr. \<forall>c<nc. get dX [r, c] = (if c = nat idx then get g [r] else 0))"
proof -
  from col_view_2d[OF assms(2,3)] obtain out where
    out: "col_view X (nat idx) = Inr out" "shape out = [nr]"
    "\<forall>r<nr. get out [r] = get X [r, nat idx]"
    by (elim exE conjE)
  let ?Z = "ops_allocate (shape X) :: real ndarray"
  have shZ: "shape ?Z = [nr, nc]" by (simp add: ops_allocate_def zeros_def shape_tabulate assms(2))
  from col_view_2d[OF shZ assms(3)] obtain col where
    col: "col_view ?Z (nat idx) = Inr col" "shape col = [nr]" "\<forall>r<nr. get col [r] = get ?Z [r, nat idx]"
    by (elim exE conjE)
  have "shape g = shape col" by (simp add: col(2) assms(4))
  from iadd_same_shape[OF this] obtain col' where
    col': "iadd col g = Inr col'" "shape col' = shape col"
    "\<forall>ix. in_range (shape col) ix \<longrightarrow> get col' ix = get col ix + get g ix"
    by (elim exE conjE)
  let ?dX = "set_col ?Z (nat idx) col'"
  have fwd: "get_col_forward idx X = Inr (out, get_col_backward idx X)"
    using assms(1) out(1) by (simp add: get_col_forward_def try_bind_def)
  have bwd: "get_col_backward idx X g = Inr ?dX"
    using assms(1) col(1) col'(1) by (simp add: get_col_backward_def try_bind_def Let_def)
  have zero: "get ?Z [r, c] = 0" if "r < nr" "c < nc" for r c
    using that by (simp add: ops_allocate_def get_zeros in_range_def assms(2))
  have val: "get ?dX [r, c] = (if c = nat idx then get g [r] else 0)" if "r < nr" "c < nc" for r c
  proof -
    have "get col' [r] = get col [r] + get g [r]"
      using col'(3) that(1) by (simp add: col(2) in_range_def)
    also have "get col [r] = 0" using col(3) that(1) zero[OF that(1) assms(3)] by simp
    finally have "get col' [r] = get g [r]" by simp
    then show ?thesis
      using that zero[OF that] by (simp add: set_col_def shZ get_tabulate in_range_def)
  qed
  show ?thesis
  proof (intro exI conjI)
    show "get_col idx = Inr (get_col_forward idx)" using assms(1) by (simp add: get_col_def)
    show "get_col_forward idx X = Inr (out, get_col_backward idx X)" by (rule fwd)
    show "shape out = [nr]" by (rule out(2))
    show "\<forall>r<nr. get out [r] = get X [r, nat idx]" by (rule out(3))
    show "get_col_backward idx X g = Inr ?dX" by (rule bwd)
    show "shape ?dX = shape X" by (simp add: set_col_def shape_tabulate ops_allocate_def zeros_def)
    show "\<forall>r<nr. \<forall>c<nc. get ?dX [r, c] = (if c = nat idx then get g [r] else 0)"
      using val by simp
  qed
qed

theorem get_col_column_witness:
  "(0::int) \<le> 1 \<and> shape Xcol_example = [2, 3] \<and> shape g_example = [2] \<and>
   (\<exists>fwd out bwd dX.
      get_col 1 = Inr fwd \<and> fwd Xcol_example = Inr (out, bwd) \<and>
      get out [0] = 2 \<and> get out [1] = 5 \<and>
      bwd g_example = Inr dX \<and> shape dX = [2, 3] \<and>
      get dX [1, 1] = 8 \<and> get dX [1, 2] = 0)"
proof -
  have h: "(0::int) \<le> 1" "shape Xcol_example = [2, 3]" "nat 1 < (3::nat)" "shape g_example = [2]"
    by (simp_all add: Xcol_example_def g_example_def)
  from get_col_column[OF h] obtain fwd out bwd dX where
    r: "get_col 1 = Inr fwd" "fwd Xcol_example = Inr (out, bwd)" "bwd g_example = Inr dX"
    "shape dX = shape Xcol_example"
    and o: "\<forall>r<2. get out [r] = get Xcol_example [r, nat 1]"
    and d: "\<forall>r<2. \<forall>c<3. get dX [r, c] = (if c = nat 1 then get g_example [r] else 0)"
    by (elim exE conjE)
  have "get out [0] = 2" "get out [1] = 5"
    using o[rule_format, of 0] o[rule_format, of 1]
    by (simp_all add: Xcol_example_def get_def)
  moreover have "get dX [1, 1] = 8" "get dX [1, 2] = 0"
    using d[rule_format, of 1 1] d[rule_format, of 1 2]
    by (simp_all add: g_example_def get_def)
  moreover have "shape dX = [2, 3]" using r(4) h(2) by simp
  ultimately show ?thesis using r(1-3) h(1,2,4) by (intro conjI exI)
qed

section \<open>Flatten and unflatten\<close>

lemma split_rows_concat:
  "length pre = skip \<Longrightarrow>
   split_rows skip (concat (map (\<lambda>seq. pre @ seq) seqs) @ rest) (map length seqs) = seqs"
  by (induction seqs) simp_all

lemma split_rows_0_concat: "split_rows 0 (concat seqs @ rest) (map length seqs) = seqs"
  using split_rows_concat[of "[]" 0 seqs rest] by simp

lemma unflatten_flatten: "ops_unflatten lay (ops_flatten lay seqs pad) (map length seqs) pad = seqs"
  by (cases lay) (simp_all add: pad_rows_def split_rows_concat split_rows_0_concat)

lemma concat_map_append_Nil: "concat (map ((@) []) seqs) = concat seqs"
  by (induction seqs) simp_all

lemma ops_flatten_0: "ops_flatten lay seqs 0 = concat seqs"
  by (cases lay) (simp_all add: pad_rows_def concat_map_append_Nil)

text \<open>
  Claim C3.  For every batch and every padding \<open>pad\<close>, the closure that the flatten
  layers return, applied to the flat buffer they return, gives the batch back: the same
  sequences, of the same lengths and contents, in the same order.  This holds for
  \<open>_flatten_add_lengths\<close> with its padding and for \<open>flatten\<close>, and for both descriptions
  that the spec gives of the padding.
\<close>

theorem flatten_roundtrip:
  "(case flatten_add_lengths lay seqs pad of
      ((X, lengths), finish_update) \<Rightarrow> lengths = map length seqs \<and> finish_update X = seqs) \<and>
   (case flatten lay seqs of (X, finish_update) \<Rightarrow> finish_update X = seqs)"
  by (simp add: flatten_add_lengths_def flatten_def Let_def unflatten_flatten)

theorem flatten_roundtrip_witness:
  "(case flatten_add_lengths Edge_padding [[1, 2], [], [3::int]] 2 of
      ((X, lengths), finish_update) \<Rightarrow>
         X = [0, 0, 1, 2, 3, 0, 0] \<and> lengths = [2, 0, 1] \<and> finish_update X = [[1, 2], [], [3]]) \<and>
   (case flatten_add_lengths Boundary_padding [[1, 2], [], [3::int]] 2 of
      ((X, lengths), finish_update) \<Rightarrow>
         X = [0, 0, 1, 2, 0, 0, 0, 0, 3, 0, 0] \<and> finish_update X = [[1, 2], [], [3]])"
  using flatten_roundtrip[where lay = Edge_padding and seqs = "[[1, 2], [], [3::int]]" and pad = 2]
    flatten_roundtrip[where lay = Boundary_padding and seqs = "[[1, 2], [], [3::int]]" and pad = 2]
  by (simp add: flatten_add_lengths_def Let_def pad_rows_def eval_nat_numeral)

text \<open>
  The number of rows of the flat buffer under the two descriptions of the padding: they
  agree for one sequence and differ for every other batch when \<open>pad > 0\<close>.
\<close>

lemma length_flatten_edges:
  "length (ops_flatten Edge_padding seqs pad) = length (concat seqs) + 2 * pad"
  by (simp add: pad_rows_def)

lemma length_flatten_boundaries:
  "length (ops_flatten Boundary_padding seqs pad) = length (concat seqs) + (length seqs + 1) * pad"
  by (induction seqs) (simp_all add: pad_rows_def)

section \<open>rebatch\<close>

lemma chunks_Nil: "chunks k [] = []"
  by (subst chunks.simps) simp

lemma py_slice_chunk:
  assumes "i < length X" and "1 \<le> k"
  shows "py_slice X (int i) (int i + k) = take (nat k) (drop i X)"
proof -
  have "nat (min (int i + k) (int (length X)) - int i) = min (nat k) (length X - i)"
    using assms by (simp add: min_def) linarith
  then show ?thesis
    using assms by (simp add: py_slice_def Let_def min_def split: if_splits)
qed

lemma divide_loop_chunks:
  assumes "1 \<le> k"
  shows "divide_loop X k (int i) parts = Some (parts @ chunks (nat k) (drop i X))"
proof (induction "length X - i" arbitrary: i parts rule: less_induct)
  case less
  show ?case
  proof (cases "i < length X")
    case False
    then show ?thesis by (subst divide_loop.simps) (simp add: chunks_Nil)
  next
    case True
    have step: "int i + k = int (i + nat k)" using assms by simp
    have "length X - (i + nat k) < length X - i" using True assms by linarith
    from less[OF this]
    have IH: "divide_loop X k (int (i + nat k)) (parts @ [take (nat k) (drop i X)]) =
                Some ((parts @ [take (nat k) (drop i X)]) @ chunks (nat k) (drop (i + nat k) X))" .
    have nz: "nat k \<noteq> 0" "drop i X \<noteq> []" using assms True by simp_all
    have ch: "chunks (nat k) (drop i X) = take (nat k) (drop i X) # chunks (nat k) (drop (i + nat k) X)"
      using nz by (subst chunks.simps) (simp add: add.commute)
    have "divide_loop X k (int i) parts =
            divide_loop X k (int i + k) (parts @ [py_slice X (int i) (int i + k)])"
      using True by (subst divide_loop.simps) simp
    also have "\<dots> = divide_loop X k (int (i + nat k)) (parts @ [take (nat k) (drop i X)])"
    proof -
      have "py_slice X (int i) (int (i + nat k)) = take (nat k) (drop i X)"
        using py_slice_chunk[OF True assms] unfolding step .
      then show ?thesis unfolding step by (rule arg_cong)
    qed
    also note IH
    also have "Some ((parts @ [take (nat k) (drop i X)]) @ chunks (nat k) (drop (i + nat k) X)) =
                 Some (parts @ chunks (nat k) (drop i X))"
      by (simp add: ch)
    finally show ?thesis .
  qed
qed

lemma divide_array_chunks: "1 \<le> k \<Longrightarrow> divide_array X k = Some (chunks (nat k) X)"
  using divide_loop_chunks[of k X 0 "[]"] by (simp add: divide_array_def)

lemma concat_chunks: "0 < k \<Longrightarrow> concat (chunks k xs) = xs"
proof (induction k xs rule: chunks.induct)
  case (1 k xs)
  then show ?case by (subst chunks.simps) simp
qed

lemma chunks_Nil_iff: "0 < k \<Longrightarrow> chunks k xs = [] \<longleftrightarrow> xs = []"
  by (subst chunks.simps) simp






lemma rebatch_forward_chunked:
  assumes "1 \<le> k" and "k \<le> int (length X)"
  shows "rebatch_forward lay k layer X d =
           Some (Inr (concat (map (\<lambda>p. fst (layer p d)) (chunks (nat k) X)),
                      rebatch_backward lay k (map (\<lambda>p. snd (layer p d)) (chunks (nat k) X))))"
proof -
  have "X \<noteq> []" using assms by auto
  then have "chunks (nat k) X \<noteq> []" using chunks_Nil_iff[of "nat k" X] assms(1) by simp
  then show ?thesis
    using assms
    by (simp add: rebatch_forward_def divide_array_chunks Let_def ops_flatten_0 comp_def)
qed





text \<open>
  Claim C7.  For a layer whose forward maps every item of the batch on its own (by a
  function \<open>g\<close>), and a chunk size \<open>k\<close> from 1 to the length of the batch, the output of
  the rebatcher is the output of the layer on the whole batch.
\<close>

theorem rebatch_chunk_invariance:
  assumes "\<forall>X'. fst (layer X' d) = map g X'" and "1 \<le> k" and "k \<le> int (length X)"
  shows "\<exists>bwd. rebatch_forward lay k layer X d = Some (Inr (fst (layer X d), bwd))"
proof -
  have "concat (map (\<lambda>p. fst (layer p d)) (chunks (nat k) X)) = map g (concat (chunks (nat k) X))"
    using assms(1) by (simp add: map_concat)
  also have "\<dots> = fst (layer X d)" using assms(1,2) by (simp add: concat_chunks)
  finally show ?thesis
    using rebatch_forward_chunked[OF assms(2,3), of lay layer d] by simp
qed

theorem rebatch_chunk_invariance_witness:
  "(\<forall>X'. fst (double_layer X' (1/2)) = map ((*) 2) X') \<and> (1::int) \<le> 2 \<and>
   (2::int) \<le> int (length [1, 2, 3, 4, 5::int]) \<and>
   (\<exists>bwd. rebatch_forward Boundary_padding 2 double_layer [1, 2, 3, 4, 5] (1/2) =
             Some (Inr ([2, 4, 6, 8, 10], bwd)))"
proof -
  have h: "\<forall>X'. fst (double_layer X' (1/2)) = map ((*) 2) X'" by (simp add: double_layer_def)
  have k: "(1::int) \<le> 2" "(2::int) \<le> int (length [1, 2, 3, 4, 5::int])" by simp_all
  from rebatch_chunk_invariance[where layer = double_layer and d = "1/2" and g = "(*) 2"
      and k = 2 and X = "[1, 2, 3, 4, 5]" and lay = Boundary_padding, OF h k]
  have "\<exists>bwd. rebatch_forward Boundary_padding 2 double_layer [1, 2, 3, 4, 5] (1/2) =
             Some (Inr ([2, 4, 6, 8, 10], bwd))"
    by (simp add: double_layer_def)
  with h k show ?thesis by (intro conjI)
qed

section \<open>reapply\<close>








text \<open>With no pass of the loop \<open>reapply_fwd\<close> raises.\<close>

lemma reapply_fwd_no_pass: "n_times \<le> 0 \<Longrightarrow> reapply_fwd layer n_times X d = Inl NameError"
  by (simp add: reapply_fwd_def)



end
